theory Spec2Isabelle
  imports Complex_Main
begin

section \<open>Python values\<close>

text \<open>
  Python's \<^verbatim>\<open>float\<close> is modelled by the exact rationals: \<^verbatim>\<open>/\<close> is true division and
  \<^verbatim>\<open>int(x)\<close> truncates toward zero. Rounding of binary floating point is not part of
  the model. Python's \<^verbatim>\<open>int\<close> is \<^typ>\<open>int\<close>; \<^verbatim>\<open>//\<close> on ints is \<open>div\<close> (both floor).
\<close>

definition py_int :: "rat \<Rightarrow> int" where
  "py_int x = (if 0 \<le> x then \<lfloor>x\<rfloor> else \<lceil>x\<rceil>)"

text \<open>\<^verbatim>\<open>str(n)\<close> for an int, as the f-strings of the battle log need it.\<close>

fun str_nat :: "nat \<Rightarrow> string" where
  "str_nat n =
     (if n < 10 then [char_of (48 + n)]
      else str_nat (n div 10) @ [char_of (48 + n mod 10)])"

declare str_nat.simps [simp del]

definition str_int :: "int \<Rightarrow> string" where
  "str_int i = (if i < 0 then CHR ''-'' # str_nat (nat (- i)) else str_nat (nat i))"

text \<open>The text \<^verbatim>\<open>'s \<close> of the possessive in a log line.\<close>

definition apos_s :: string where
  "apos_s = CHR 0x27 # ''s ''"

datatype py_error = ZeroDivisionError | AttributeError

text \<open>
  The module-level random source is made explicit: a stream of raw draws, each call of
  \<^verbatim>\<open>random.random()\<close> taking the next one. \<^verbatim>\<open>random.uniform(a, b)\<close> is
  \<^verbatim>\<open>a + (b - a) * random()\<close>, as in the standard library; \<^verbatim>\<open>random.randint(a, b)\<close>
  scales one raw draw to the integer range.
\<close>

type_synonym rng = "nat \<Rightarrow> rat"

definition rand_random :: "rng \<Rightarrow> rat \<times> rng" where
  "rand_random g = (g 0, \<lambda>n. g (Suc n))"

definition rand_uniform :: "rat \<Rightarrow> rat \<Rightarrow> rng \<Rightarrow> rat \<times> rng" where
  "rand_uniform a b g = (a + (b - a) * g 0, \<lambda>n. g (Suc n))"

definition rand_randint :: "int \<Rightarrow> int \<Rightarrow> rng \<Rightarrow> int \<times> rng" where
  "rand_randint a b g = (a + \<lfloor>g 0 * of_int (b - a + 1)\<rfloor>, \<lambda>n. g (Suc n))"

section \<open>pokemon.py: class Pokemon\<close>

text \<open>
  The fields the engine reads or writes. \<open>stat_stages\<close> is the dict of the seven
  stage counters; \<open>status\<close> is \<open>None\<close> or the name of the condition.
\<close>

record pokemon =
  nickname :: string
  types :: "string list"
  level :: int
  moves :: "string list"
  max_hp :: int
  current_hp :: int
  attack :: int
  defense :: int
  sp_attack :: int
  sp_defense :: int
  speed :: int
  stat_stages :: "string \<rightharpoonup> int"
  status :: "string option"

text \<open>The dict \<^verbatim>\<open>stat_stages\<close> as \<^verbatim>\<open>__init__\<close> builds it.\<close>

definition init_stat_stages :: "string \<rightharpoonup> int" where
  "init_stat_stages =
     [''attack'' \<mapsto> 0, ''defense'' \<mapsto> 0, ''sp_attack'' \<mapsto> 0, ''sp_defense'' \<mapsto> 0,
      ''speed'' \<mapsto> 0, ''accuracy'' \<mapsto> 0, ''evasion'' \<mapsto> 0]"

definition is_fainted :: "pokemon \<Rightarrow> bool" where
  "is_fainted p = (current_hp p \<le> 0)"

text \<open>\<^verbatim>\<open>self.stat_stages.get(stat_name, 0)\<close>\<close>

definition stage_of :: "pokemon \<Rightarrow> string \<Rightarrow> int" where
  "stage_of p stat_name = (case stat_stages p stat_name of None \<Rightarrow> 0 | Some s \<Rightarrow> s)"

text \<open>
  \<^verbatim>\<open>get_modified_stat\<close>. The first chain of comparisons returns \<^verbatim>\<open>1.0\<close> for every
  name that is not one of the five stats; the branches below it are kept in the order of
  the source. For the five stats the result is an \<^verbatim>\<open>int\<close>, embedded in the rationals.
\<close>

definition get_modified_stat :: "string \<Rightarrow> pokemon \<Rightarrow> rat" where
  "get_modified_stat stat_name p =
     (if stat_name \<notin> {''attack'', ''defense'', ''sp_attack'', ''sp_defense'', ''speed''} then 1
      else
        let base_value =
              (if stat_name = ''attack'' then attack p
               else if stat_name = ''defense'' then defense p
               else if stat_name = ''sp_attack'' then sp_attack p
               else if stat_name = ''sp_defense'' then sp_defense p
               else speed p);
            stage = stage_of p stat_name;
            multiplier =
              (if stat_name \<in> {''accuracy'', ''evasion''} then
                 (if stage \<ge> 0 then (3 + of_int stage) / 3 else 3 / (3 - of_int stage))
               else
                 (if stage \<ge> 0 then (2 + of_int stage) / 2 else 2 / (2 - of_int stage)));
            multiplier =
              (if stat_name = ''speed'' \<and> status p = Some ''paralyzed'' then multiplier * (1 / 2)
               else if stat_name = ''attack'' \<and> status p = Some ''burned'' then multiplier * (1 / 2)
               else multiplier)
        in of_int (py_int (of_int base_value * multiplier)))"

definition take_damage :: "int \<Rightarrow> pokemon \<Rightarrow> pokemon \<times> int" where
  "take_damage damage p =
     (let damage = max 1 damage
      in (p\<lparr>current_hp := max 0 (current_hp p - damage)\<rparr>, damage))"

definition heal :: "int \<Rightarrow> pokemon \<Rightarrow> pokemon \<times> int" where
  "heal amount p =
     (if is_fainted p then (p, 0)
      else
        let old_hp = current_hp p;
            p' = p\<lparr>current_hp := min (max_hp p) (current_hp p + amount)\<rparr>
        in (p', current_hp p' - old_hp))"

text \<open>\<^verbatim>\<open>if self.status:\<close> is the truth value of an optional string.\<close>

definition status_truthy :: "string option \<Rightarrow> bool" where
  "status_truthy s = (case s of None \<Rightarrow> False | Some t \<Rightarrow> t \<noteq> [])"

definition apply_status :: "string \<Rightarrow> pokemon \<Rightarrow> pokemon \<times> bool" where
  "apply_status st p =
     (if status_truthy (status p) then (p, False)
      else if st = ''paralyzed'' \<and> ''Electric'' \<in> set (types p) then (p, False)
      else if st = ''poisoned'' \<and> (''Poison'' \<in> set (types p) \<or> ''Steel'' \<in> set (types p))
        then (p, False)
      else if st = ''burned'' \<and> ''Fire'' \<in> set (types p) then (p, False)
      else (p\<lparr>status := Some st\<rparr>, True))"

definition modify_stat_stage :: "string \<Rightarrow> int \<Rightarrow> pokemon \<Rightarrow> pokemon \<times> int" where
  "modify_stat_stage stat stages p =
     (case stat_stages p stat of
        None \<Rightarrow> (p, 0)
      | Some old_stage \<Rightarrow>
          let new_stage = max (- 6) (min 6 (old_stage + stages))
          in (p\<lparr>stat_stages := (stat_stages p)(stat \<mapsto> new_stage)\<rparr>, new_stage - old_stage))"

text \<open>A sequence of \<^verbatim>\<open>modify_stat_stage\<close> calls, the returned deltas collected.\<close>

fun modify_many :: "(string \<times> int) list \<Rightarrow> pokemon \<Rightarrow> pokemon \<times> int list" where
  "modify_many [] p = (p, [])"
| "modify_many ((stat, stages) # cs) p =
     (let (p1, d) = modify_stat_stage stat stages p;
          (p2, ds) = modify_many cs p1
      in (p2, d # ds))"

text \<open>Every stored stage lies in \<open>[-6, 6]\<close>.\<close>

definition stages_ok :: "pokemon \<Rightarrow> bool" where
  "stages_ok p = (\<forall>s v. stat_stages p s = Some v \<longrightarrow> - 6 \<le> v \<and> v \<le> 6)"

text \<open>\<open>0 \<le> current_hp \<le> max_hp\<close>\<close>

definition hp_ok :: "pokemon \<Rightarrow> bool" where
  "hp_ok p = (0 \<le> current_hp p \<and> current_hp p \<le> max_hp p)"

section \<open>data.py: the read-only tables\<close>

text \<open>
  The module \<^verbatim>\<open>data\<close> is not part of the sources at hand. Its tables \<^verbatim>\<open>MOVE_DATA\<close> and
  \<^verbatim>\<open>TYPE_CHART\<close> are parameters of the engine: dicts, with an optional field for every
  key that the engine reads with \<^verbatim>\<open>.get\<close> or tests with \<^verbatim>\<open>in\<close>. The dicts
  \<^verbatim>\<open>stat_boost\<close>, \<^verbatim>\<open>stat_drop\<close>, ... are association lists in insertion order, the
  order in which \<^verbatim>\<open>.items()\<close> yields them.
\<close>

record effect =
  e_status :: "string option"
  e_chance :: "rat option"
  e_stat_boost :: "(string \<times> int) list option"
  e_stat_drop :: "(string \<times> int) list option"
  e_stat_boost_chance :: "(string \<times> int) list option"
  e_stat_drop_chance :: "(string \<times> int) list option"
  e_heal :: "rat option"
  e_drain :: "rat option"
  e_recoil :: "rat option"
  e_priority :: "int option"

record move =
  m_type :: "string option"
  m_category :: "string option"
  m_power :: "int option"
  m_accuracy :: "int option"
  m_effect :: "effect option"
  m_other_keys :: bool

type_synonym move_data = "string \<rightharpoonup> move"
type_synonym type_chart = "string \<rightharpoonup> (string \<rightharpoonup> rat)"

text \<open>The empty dict \<^verbatim>\<open>{}\<close>, the default of \<^verbatim>\<open>.get("effect", {})\<close> and of \<^verbatim>\<open>MOVE_DATA.get\<close>.\<close>

definition empty_effect :: effect where
  "empty_effect =
     \<lparr>e_status = None, e_chance = None, e_stat_boost = None, e_stat_drop = None,
      e_stat_boost_chance = None, e_stat_drop_chance = None, e_heal = None, e_drain = None,
      e_recoil = None, e_priority = None\<rparr>"

definition empty_move :: move where
  "empty_move =
     \<lparr>m_type = None, m_category = None, m_power = None, m_accuracy = None, m_effect = None,
      m_other_keys = False\<rparr>"

text \<open>\<^verbatim>\<open>not move\<close>: the dict has no key at all.\<close>

definition move_is_empty :: "move \<Rightarrow> bool" where
  "move_is_empty m =
     (m_type m = None \<and> m_category m = None \<and> m_power m = None \<and> m_accuracy m = None
      \<and> m_effect m = None \<and> \<not> m_other_keys m)"

definition get_move :: "move_data \<Rightarrow> string \<Rightarrow> move" where
  "get_move md move_name = (case md move_name of None \<Rightarrow> empty_move | Some m \<Rightarrow> m)"

definition move_power :: "move \<Rightarrow> int" where
  "move_power m = (case m_power m of None \<Rightarrow> 0 | Some n \<Rightarrow> n)"

definition move_category :: "move \<Rightarrow> string" where
  "move_category m = (case m_category m of None \<Rightarrow> ''Physical'' | Some c \<Rightarrow> c)"

definition move_type :: "move \<Rightarrow> string" where
  "move_type m = (case m_type m of None \<Rightarrow> ''Normal'' | Some t \<Rightarrow> t)"

definition move_accuracy :: "move \<Rightarrow> int" where
  "move_accuracy m = (case m_accuracy m of None \<Rightarrow> 100 | Some a \<Rightarrow> a)"

definition move_effect :: "move \<Rightarrow> effect" where
  "move_effect m = (case m_effect m of None \<Rightarrow> empty_effect | Some e \<Rightarrow> e)"

definition move_priority :: "move \<Rightarrow> int" where
  "move_priority m = (case e_priority (move_effect m) of None \<Rightarrow> 0 | Some n \<Rightarrow> n)"

text \<open>\<^verbatim>\<open>TYPE_CHART.get(move_type, {}).get(defender_type, 1.0)\<close>\<close>

definition type_effectiveness :: "type_chart \<Rightarrow> string \<Rightarrow> string \<Rightarrow> rat" where
  "type_effectiveness chart mt dt =
     (case chart mt of
        None \<Rightarrow> 1
      | Some row \<Rightarrow> (case row dt of None \<Rightarrow> 1 | Some v \<Rightarrow> v))"

text \<open>The loop over \<^verbatim>\<open>defender.types\<close> that multiplies the entries up, starting from \<^verbatim>\<open>1.0\<close>.\<close>

definition effectiveness_of :: "type_chart \<Rightarrow> string \<Rightarrow> string list \<Rightarrow> rat" where
  "effectiveness_of chart mt dts = foldl (\<lambda>e dt. e * type_effectiveness chart mt dt) 1 dts"

section \<open>player.py: class Player\<close>

text \<open>
  \<open>active_pokemon_index\<close> is only ever assigned \<open>0\<close> (the constructor) or an index that
  \<^verbatim>\<open>switch_pokemon\<close> has checked to be non-negative, hence a natural number. The indices
  that come with an action are arbitrary ints. Each Pokemon object belongs to one team
  and occurs there once, so a team is a list of records.
\<close>

record player =
  pname :: string
  team :: "pokemon list"
  active_pokemon_index :: nat
  potions :: int

definition active_pokemon :: "player \<Rightarrow> pokemon option" where
  "active_pokemon pl =
     (if team pl = [] \<or> active_pokemon_index pl \<ge> length (team pl) then None
      else Some (team pl ! active_pokemon_index pl))"

definition switch_pokemon :: "int \<Rightarrow> player \<Rightarrow> player \<times> bool" where
  "switch_pokemon index pl =
     (if 0 \<le> index \<and> index < int (length (team pl)) \<and> \<not> is_fainted (team pl ! nat index)
      then (pl\<lparr>active_pokemon_index := nat index\<rparr>, True)
      else (pl, False))"

definition use_potion :: "int \<Rightarrow> player \<Rightarrow> player \<times> bool" where
  "use_potion pokemon_index pl =
     (if potions pl \<le> 0 then (pl, False)
      else if 0 \<le> pokemon_index \<and> pokemon_index < int (length (team pl))
              \<and> \<not> is_fainted (team pl ! nat pokemon_index) then
        (let pk = team pl ! nat pokemon_index
         in if current_hp pk < max_hp pk then
              (let heal_amount = min 20 (max_hp pk - current_hp pk);
                   pk' = fst (heal heal_amount pk)
               in (pl\<lparr>team := (team pl)[nat pokemon_index := pk'], potions := potions pl - 1\<rparr>,
                   True))
            else (pl, False))
      else (pl, False))"

definition has_usable_pokemon :: "player \<Rightarrow> bool" where
  "has_usable_pokemon pl = list_ex (\<lambda>pk. \<not> is_fainted pk) (team pl)"

section \<open>battle.py: class Battle\<close>

text \<open>
  An action is the dict that a policy or a client submits; a missing key is \<open>None\<close>.
  The two players of a battle are two distinct objects, named by their side.
\<close>

datatype side = P1 | P2

record action =
  a_type :: "string option"
  a_move :: "string option"
  a_pokemon_index :: "int option"
  a_item :: "string option"
  a_target_index :: "int option"

record battle =
  player1 :: player
  player2 :: player
  current_turn :: int
  is_battle_over :: bool
  winner :: "side option"
  battle_log :: "string list"

fun other_side :: "side \<Rightarrow> side" where
  "other_side P1 = P2"
| "other_side P2 = P1"

fun get_player :: "side \<Rightarrow> battle \<Rightarrow> player" where
  "get_player P1 b = player1 b"
| "get_player P2 b = player2 b"

fun set_player :: "side \<Rightarrow> player \<Rightarrow> battle \<Rightarrow> battle" where
  "set_player P1 pl b = b\<lparr>player1 := pl\<rparr>"
| "set_player P2 pl b = b\<lparr>player2 := pl\<rparr>"

text \<open>Writing a mutated Pokemon back at its place in the roster.\<close>

definition set_active :: "pokemon \<Rightarrow> player \<Rightarrow> player" where
  "set_active pk pl = pl\<lparr>team := (team pl)[active_pokemon_index pl := pk]\<rparr>"

definition action_move :: "action \<Rightarrow> string" where
  "action_move a = (case a_move a of None \<Rightarrow> [] | Some m \<Rightarrow> m)"

subsection \<open>\<^verbatim>\<open>_determine_action_order\<close>\<close>

definition active_speed :: "player \<Rightarrow> rat" where
  "active_speed pl =
     (case active_pokemon pl of None \<Rightarrow> 0 | Some pk \<Rightarrow> get_modified_stat ''speed'' pk)"

definition determine_action_order ::
  "move_data \<Rightarrow> battle \<Rightarrow> action \<Rightarrow> action \<Rightarrow> rng \<Rightarrow> (side \<times> action) list \<times> rng" where
  "determine_action_order md b player1_action player2_action g =
     (if a_type player1_action = Some ''pass'' then ([(P2, player2_action)], g)
      else if a_type player2_action = Some ''pass'' then ([(P1, player1_action)], g)
      else if a_type player1_action \<in> {Some ''switch'', Some ''item''}
              \<and> a_type player2_action = Some ''move''
        then ([(P1, player1_action), (P2, player2_action)], g)
      else if a_type player2_action \<in> {Some ''switch'', Some ''item''}
              \<and> a_type player1_action = Some ''move''
        then ([(P2, player2_action), (P1, player1_action)], g)
      else if a_type player1_action = a_type player2_action then
        (let p1_priority = move_priority (get_move md (action_move player1_action));
             p2_priority = move_priority (get_move md (action_move player2_action))
         in if a_type player1_action = Some ''move'' \<and> p1_priority \<noteq> p2_priority then
              (if p1_priority > p2_priority
               then ([(P1, player1_action), (P2, player2_action)], g)
               else ([(P2, player2_action), (P1, player1_action)], g))
            else
              (let p1_speed = active_speed (player1 b);
                   p2_speed = active_speed (player2 b)
               in if p1_speed > p2_speed
                    then ([(P1, player1_action), (P2, player2_action)], g)
                  else if p2_speed > p1_speed
                    then ([(P2, player2_action), (P1, player1_action)], g)
                  else
                    (let (r, g') = rand_random g
                     in if r < 1 / 2
                          then ([(P1, player1_action), (P2, player2_action)], g')
                          else ([(P2, player2_action), (P1, player1_action)], g'))))
      else ([(P1, player1_action), (P2, player2_action)], g))"

subsection \<open>\<^verbatim>\<open>_calculate_damage\<close>\<close>

text \<open>
  The result is the damage, the battle log with the lines appended, and the random source
  after the two draws. Dividing by a defense of zero raises.
\<close>

definition calculate_damage ::
  "type_chart \<Rightarrow> pokemon \<Rightarrow> pokemon \<Rightarrow> move \<Rightarrow> string list \<Rightarrow> rng
     \<Rightarrow> py_error + (int \<times> string list \<times> rng)" where
  "calculate_damage chart attacker defender mv lg g =
     (let power = move_power mv;
          category = move_category mv;
          mtype = move_type mv
      in if power = 0 then Inr (0, lg, g)
         else
           let attack_stat =
                 (if category = ''Physical'' then get_modified_stat ''attack'' attacker
                  else get_modified_stat ''sp_attack'' attacker);
               defense_stat =
                 (if category = ''Physical'' then get_modified_stat ''defense'' defender
                  else get_modified_stat ''sp_defense'' defender)
           in if defense_stat = 0 then Inl ZeroDivisionError
              else
                let damage =
                      ((2 * of_int (level attacker) / 5 + 2) * of_int power * attack_stat
                         / defense_stat) / 50 + 2;
                    damage = (if mtype \<in> set (types attacker) then damage * (3 / 2) else damage);
                    effectiveness = effectiveness_of chart mtype (types defender);
                    damage = damage * effectiveness;
                    lg =
                      (if effectiveness > 1 then lg @ [''It's super effective!'']
                       else if effectiveness < 1 \<and> effectiveness > 0
                         then lg @ [''It's not very effective...'']
                       else if effectiveness = 0
                         then lg @ [''It doesn't affect '' @ nickname defender @ ''...'']
                       else lg);
                    (u, g) = rand_uniform (85 / 100) 1 g;
                    damage = damage * u;
                    (c, g) = rand_random g;
                    (damage, lg) =
                      (if c < 625 / 10000 then (damage * (3 / 2), lg @ [''A critical hit!''])
                       else (damage, lg))
                in Inr (max 1 (py_int damage), lg, g))"

subsection \<open>\<^verbatim>\<open>_apply_move_effects\<close>\<close>

text \<open>
  The attacker, the defender, the log and the random source as one block of the method
  after the other leaves them.
\<close>

record fx =
  fx_attacker :: pokemon
  fx_defender :: pokemon
  fx_log :: "string list"
  fx_rng :: rng

text \<open>The loops over \<^verbatim>\<open>.items()\<close> of the stat dicts.\<close>

fun stat_boost_loop :: "(string \<times> int) list \<Rightarrow> pokemon \<Rightarrow> string list \<Rightarrow> pokemon \<times> string list" where
  "stat_boost_loop [] a lg = (a, lg)"
| "stat_boost_loop ((stat, stages) # rest) a lg =
     (let (a', d) = modify_stat_stage stat stages a
      in stat_boost_loop rest a'
           (if d \<noteq> 0
            then lg @ [nickname a' @ apos_s @ stat @ '' ''
                        @ (if stages > 0 then ''rose'' else ''fell'') @ ''!'']
            else lg))"

fun stat_boost_chance_loop :: "(string \<times> int) list \<Rightarrow> pokemon \<Rightarrow> string list \<Rightarrow> pokemon \<times> string list" where
  "stat_boost_chance_loop [] a lg = (a, lg)"
| "stat_boost_chance_loop ((stat, stages) # rest) a lg =
     (let (a', d) = modify_stat_stage stat stages a
      in stat_boost_chance_loop rest a'
           (if d \<noteq> 0 then lg @ [nickname a' @ apos_s @ stat @ '' rose!''] else lg))"

fun stat_drop_loop :: "(string \<times> int) list \<Rightarrow> pokemon \<Rightarrow> string list \<Rightarrow> pokemon \<times> string list" where
  "stat_drop_loop [] d lg = (d, lg)"
| "stat_drop_loop ((stat, stages) # rest) d lg =
     (let (d', delta) = modify_stat_stage stat (- stages) d
      in stat_drop_loop rest d'
           (if delta \<noteq> 0 then lg @ [nickname d' @ apos_s @ stat @ '' fell!''] else lg))"

definition effect_status :: "effect \<Rightarrow> fx \<Rightarrow> fx" where
  "effect_status e s =
     (case e_status e of
        None \<Rightarrow> s
      | Some st \<Rightarrow>
          let chance = (case e_chance e of None \<Rightarrow> 1 | Some c \<Rightarrow> c);
              (r, g) = rand_random (fx_rng s);
              s = s\<lparr>fx_rng := g\<rparr>
          in if r < chance then
               (let (d', applied) = apply_status st (fx_defender s)
                in if applied
                   then s\<lparr>fx_defender := d',
                          fx_log := fx_log s @ [nickname d' @ '' was '' @ st @ ''!'']\<rparr>
                   else s\<lparr>fx_defender := d'\<rparr>)
             else s)"

definition effect_stat_boost :: "effect \<Rightarrow> fx \<Rightarrow> fx" where
  "effect_stat_boost e s =
     (case e_stat_boost e of
        None \<Rightarrow> s
      | Some items \<Rightarrow>
          let (a', lg) = stat_boost_loop items (fx_attacker s) (fx_log s)
          in s\<lparr>fx_attacker := a', fx_log := lg\<rparr>)"

definition effect_stat_drop :: "effect \<Rightarrow> fx \<Rightarrow> fx" where
  "effect_stat_drop e s =
     (case e_stat_drop e of
        None \<Rightarrow> s
      | Some items \<Rightarrow>
          let (d', lg) = stat_drop_loop items (fx_defender s) (fx_log s)
          in s\<lparr>fx_defender := d', fx_log := lg\<rparr>)"

definition effect_stat_boost_chance :: "effect \<Rightarrow> fx \<Rightarrow> fx" where
  "effect_stat_boost_chance e s =
     (case e_stat_boost_chance e of
        None \<Rightarrow> s
      | Some items \<Rightarrow>
          let chance = (case e_chance e of None \<Rightarrow> 1 / 10 | Some c \<Rightarrow> c);
              (r, g) = rand_random (fx_rng s);
              s = s\<lparr>fx_rng := g\<rparr>
          in if r < chance then
               (let (a', lg) = stat_boost_chance_loop items (fx_attacker s) (fx_log s)
                in s\<lparr>fx_attacker := a', fx_log := lg\<rparr>)
             else s)"

definition effect_stat_drop_chance :: "effect \<Rightarrow> fx \<Rightarrow> fx" where
  "effect_stat_drop_chance e s =
     (case e_stat_drop_chance e of
        None \<Rightarrow> s
      | Some items \<Rightarrow>
          let chance = (case e_chance e of None \<Rightarrow> 1 / 10 | Some c \<Rightarrow> c);
              (r, g) = rand_random (fx_rng s);
              s = s\<lparr>fx_rng := g\<rparr>
          in if r < chance then
               (let (d', lg) = stat_drop_loop items (fx_defender s) (fx_log s)
                in s\<lparr>fx_defender := d', fx_log := lg\<rparr>)
             else s)"

definition effect_heal :: "effect \<Rightarrow> fx \<Rightarrow> fx" where
  "effect_heal e s =
     (case e_heal e of
        None \<Rightarrow> s
      | Some heal_percent \<Rightarrow>
          let heal_amount = py_int (of_int (max_hp (fx_attacker s)) * heal_percent);
              (a', actual_heal) = heal heal_amount (fx_attacker s)
          in if actual_heal > 0
             then s\<lparr>fx_attacker := a',
                    fx_log := fx_log s @ [nickname a' @ '' restored '' @ str_int actual_heal @ '' HP!'']\<rparr>
             else s\<lparr>fx_attacker := a'\<rparr>)"

definition effect_drain :: "move \<Rightarrow> effect \<Rightarrow> fx \<Rightarrow> fx" where
  "effect_drain mv e s =
     (case e_drain e of
        None \<Rightarrow> s
      | Some drain_percent \<Rightarrow>
          if is_fainted (fx_defender s) then s
          else
            let damage_dealt =
                  min (max_hp (fx_defender s) - current_hp (fx_defender s)) (move_power mv);
                heal_amount = py_int (of_int damage_dealt * drain_percent);
                (a', actual_heal) = heal heal_amount (fx_attacker s)
            in if actual_heal > 0
               then s\<lparr>fx_attacker := a',
                      fx_log := fx_log s @ [nickname a' @ '' restored '' @ str_int actual_heal @ '' HP!'']\<rparr>
               else s\<lparr>fx_attacker := a'\<rparr>)"

definition effect_recoil :: "move \<Rightarrow> effect \<Rightarrow> string \<Rightarrow> fx \<Rightarrow> fx" where
  "effect_recoil mv e attacker_player_name s =
     (case e_recoil e of
        None \<Rightarrow> s
      | Some recoil_percent \<Rightarrow>
          let damage_dealt =
                min (max_hp (fx_defender s) - current_hp (fx_defender s)) (move_power mv);
              recoil_damage = py_int (of_int damage_dealt * recoil_percent)
          in if recoil_damage > 0 then
               (let (a', actual_recoil) = take_damage recoil_damage (fx_attacker s);
                    lg = fx_log s @ [nickname a' @ '' was hurt by recoil! (''
                                      @ str_int actual_recoil @ '' damage)'']
                in if is_fainted a'
                   then s\<lparr>fx_attacker := a',
                          fx_log := lg @ [attacker_player_name @ apos_s @ nickname a'
                                           @ '' fainted due to recoil!'']\<rparr>
                   else s\<lparr>fx_attacker := a', fx_log := lg\<rparr>)
             else s)"

definition apply_move_effects :: "move \<Rightarrow> string \<Rightarrow> fx \<Rightarrow> fx" where
  "apply_move_effects mv attacker_player_name s =
     (let e = move_effect mv;
          s = effect_status e s;
          s = effect_stat_boost e s;
          s = effect_stat_drop e s;
          s = effect_stat_boost_chance e s;
          s = effect_stat_drop_chance e s;
          s = effect_heal e s;
          s = effect_drain mv e s
      in effect_recoil mv e attacker_player_name s)"

subsection \<open>\<^verbatim>\<open>_execute_move\<close>\<close>

text \<open>
  \<^verbatim>\<open>_execute_move\<close> in three parts: the guards and the status check
  (\<open>execute_move\<close>), the accuracy roll (\<open>accuracy_check\<close>) and the dispatch on the
  category (\<open>move_dispatch\<close>), after which the attacker and the defender are written
  back to their rosters. \<^verbatim>\<open>random.random()\<close> is consumed by the status check only when
  the attacker is paralyzed or frozen.
\<close>

definition write_back :: "side \<Rightarrow> fx \<Rightarrow> battle \<Rightarrow> battle \<times> rng" where
  "write_back sd s b =
     (let b = set_player sd (set_active (fx_attacker s) (get_player sd b)) b;
          b = set_player (other_side sd)
                (set_active (fx_defender s) (get_player (other_side sd) b)) b
      in (b\<lparr>battle_log := fx_log s\<rparr>, fx_rng s))"

definition move_dispatch ::
  "type_chart \<Rightarrow> side \<Rightarrow> move \<Rightarrow> pokemon \<Rightarrow> pokemon \<Rightarrow> battle \<Rightarrow> rng
     \<Rightarrow> py_error + (battle \<times> rng)" where
  "move_dispatch chart sd mv attacker defender b g =
     (let category = move_category mv;
          pl = get_player sd b;
          opponent = get_player (other_side sd) b
      in if category \<in> {''Physical'', ''Special''} then
           (case calculate_damage chart attacker defender mv (battle_log b) g of
              Inl err \<Rightarrow> Inl err
            | Inr (damage, lg, g) \<Rightarrow>
                let (defender, actual_damage) = take_damage damage defender;
                    lg = lg @ [nickname defender @ '' took '' @ str_int actual_damage
                                 @ '' damage!''];
                    lg = (if is_fainted defender
                          then lg @ [pname opponent @ apos_s @ nickname defender @ '' fainted!'']
                          else lg);
                    s = apply_move_effects mv (pname pl)
                          \<lparr>fx_attacker = attacker, fx_defender = defender, fx_log = lg,
                           fx_rng = g\<rparr>
                in Inr (write_back sd s b))
         else if category = ''Status'' then
           (let s = apply_move_effects mv (pname pl)
                      \<lparr>fx_attacker = attacker, fx_defender = defender,
                       fx_log = battle_log b, fx_rng = g\<rparr>
            in Inr (write_back sd s b))
         else Inr (b, g))"

definition append_log :: "string \<Rightarrow> battle \<Rightarrow> battle" where
  "append_log line b = b\<lparr>battle_log := battle_log b @ [line]\<rparr>"

text \<open>The accuracy roll; \<^verbatim>\<open>randint\<close> is drawn only when the accuracy is below 100.\<close>

definition accuracy_check ::
  "type_chart \<Rightarrow> side \<Rightarrow> move \<Rightarrow> pokemon \<Rightarrow> pokemon \<Rightarrow> battle \<Rightarrow> rng
     \<Rightarrow> py_error + (battle \<times> rng)" where
  "accuracy_check chart sd mv attacker defender b g =
     (let accuracy = move_accuracy mv
      in if accuracy < 100 then
           (let (roll, g') = rand_randint 1 100 g
            in if roll > accuracy
               then Inr (append_log (nickname attacker @ apos_s @ ''attack missed!'') b, g')
               else move_dispatch chart sd mv attacker defender b g')
         else move_dispatch chart sd mv attacker defender b g)"

definition execute_move ::
  "move_data \<Rightarrow> type_chart \<Rightarrow> side \<Rightarrow> string \<Rightarrow> battle \<Rightarrow> rng \<Rightarrow> py_error + (battle \<times> rng)" where
  "execute_move md chart sd move_name b g =
     (case active_pokemon (get_player sd b) of
        None \<Rightarrow> Inr (b, g)
      | Some attacker \<Rightarrow>
          if is_fainted attacker then Inr (b, g)
          else
            (case active_pokemon (get_player (other_side sd) b) of
               None \<Rightarrow> Inr (b, g)
             | Some defender \<Rightarrow>
                 if is_fainted defender then Inr (b, g)
                 else
                   let mv = get_move md move_name
                   in if move_is_empty mv \<or> move_name \<notin> set (moves attacker) then
                        Inr (append_log (nickname attacker @ '' tried to use '' @ move_name
                                          @ '', but it doesn't know that move!'') b, g)
                      else
                        let b = append_log (pname (get_player sd b) @ apos_s @ nickname attacker
                                             @ '' used '' @ move_name @ ''!'') b;
                            (r1, g1) = rand_random g
                        in if status attacker = Some ''paralyzed'' \<and> r1 < 1 / 4 then
                             Inr (append_log (nickname attacker
                                               @ '' is paralyzed and couldn't move!'') b, g1)
                           else if status attacker = Some ''paralyzed'' then
                             accuracy_check chart sd mv attacker defender b g1
                           else if status attacker = Some ''frozen'' \<and> r1 < 8 / 10 then
                             Inr (append_log (nickname attacker @ '' is frozen solid!'') b, g1)
                           else if status attacker = Some ''frozen'' then
                             accuracy_check chart sd mv attacker defender b g1
                           else if status attacker = Some ''asleep'' then
                             Inr (append_log (nickname attacker @ '' is fast asleep!'') b, g)
                           else accuracy_check chart sd mv attacker defender b g))"

subsection \<open>\<^verbatim>\<open>_execute_switch\<close>, \<^verbatim>\<open>_execute_item\<close>, \<^verbatim>\<open>_execute_action\<close>\<close>

definition pokemon_word :: string where
  "pokemon_word = ''Pok'' @ [CHR 0xC3, CHR 0xA9] @ ''mon''"

definition execute_switch :: "side \<Rightarrow> int \<Rightarrow> battle \<Rightarrow> py_error + battle" where
  "execute_switch sd pokemon_index b =
     (let (pl, ok) = switch_pokemon pokemon_index (get_player sd b);
          b = set_player sd pl b
      in if ok then
           (case active_pokemon pl of
              None \<Rightarrow> Inl AttributeError
            | Some pk \<Rightarrow>
                Inr (append_log (pname pl @ '' sent out '' @ nickname pk @ ''!'')
                      (append_log (pname pl @ '' withdrew their '' @ pokemon_word @ ''!'') b)))
         else Inr (append_log (pname pl @ '' tried to switch, but couldn't!'') b))"

definition execute_item :: "side \<Rightarrow> string \<Rightarrow> int \<Rightarrow> battle \<Rightarrow> battle" where
  "execute_item sd item target_index b =
     (if item = ''potion'' then
        (let (pl, ok) = use_potion target_index (get_player sd b);
             b = set_player sd pl b
         in if ok then
              (let target_pokemon = team pl ! nat target_index
               in append_log (nickname target_pokemon @ '' restored some HP!'')
                    (append_log (pname pl @ '' used a Potion on '' @ nickname target_pokemon
                                  @ ''!'') b))
            else append_log (pname pl @ '' tried to use a Potion, but couldn't!'') b)
      else b)"

definition execute_action ::
  "move_data \<Rightarrow> type_chart \<Rightarrow> side \<Rightarrow> action \<Rightarrow> battle \<Rightarrow> rng \<Rightarrow> py_error + (battle \<times> rng)" where
  "execute_action md chart sd a b g =
     (let action_type = (case a_type a of None \<Rightarrow> ''pass'' | Some t \<Rightarrow> t)
      in if action_type = ''move'' then execute_move md chart sd (action_move a) b g
         else if action_type = ''switch'' then
           (case execute_switch sd (case a_pokemon_index a of None \<Rightarrow> 0 | Some i \<Rightarrow> i) b of
              Inl err \<Rightarrow> Inl err
            | Inr b' \<Rightarrow> Inr (b', g))
         else if action_type = ''item'' then
           Inr (execute_item sd (case a_item a of None \<Rightarrow> [] | Some i \<Rightarrow> i)
                  (case a_target_index a of None \<Rightarrow> 0 | Some i \<Rightarrow> i) b, g)
         else Inr (b, g))"

subsection \<open>End of turn and end of battle\<close>

text \<open>\<^verbatim>\<open>_apply_status_damage\<close> on the active Pokemon of a side.\<close>

definition apply_status_damage :: "pokemon \<Rightarrow> string \<Rightarrow> string list \<Rightarrow> pokemon \<times> string list" where
  "apply_status_damage pk player_name lg =
     (if status pk = Some ''burned'' then
        (let damage = max 1 (max_hp pk div 16);
             (pk, actual_damage) = take_damage damage pk;
             lg = lg @ [nickname pk @ '' was hurt by its burn! ('' @ str_int actual_damage
                         @ '' damage)'']
         in (pk, if is_fainted pk
                 then lg @ [player_name @ apos_s @ nickname pk @ '' fainted!'']
                 else lg))
      else if status pk = Some ''poisoned'' then
        (let damage = max 1 (max_hp pk div 8);
             (pk, actual_damage) = take_damage damage pk;
             lg = lg @ [nickname pk @ '' was hurt by poison! ('' @ str_int actual_damage
                         @ '' damage)'']
         in (pk, if is_fainted pk
                 then lg @ [player_name @ apos_s @ nickname pk @ '' fainted!'']
                 else lg))
      else (pk, lg))"

definition end_of_turn_side :: "side \<Rightarrow> battle \<Rightarrow> battle" where
  "end_of_turn_side sd b =
     (case active_pokemon (get_player sd b) of
        None \<Rightarrow> b
      | Some pk \<Rightarrow>
          if is_fainted pk then b
          else
            let (pk', lg) = apply_status_damage pk (pname (get_player sd b)) (battle_log b);
                b = set_player sd (set_active pk' (get_player sd b)) b
            in b\<lparr>battle_log := lg\<rparr>)"

definition apply_end_of_turn_effects :: "battle \<Rightarrow> battle" where
  "apply_end_of_turn_effects b = end_of_turn_side P2 (end_of_turn_side P1 b)"

definition check_battle_end :: "battle \<Rightarrow> battle" where
  "check_battle_end b =
     (let p1_has_usable = has_usable_pokemon (player1 b);
          p2_has_usable = has_usable_pokemon (player2 b)
      in if \<not> p1_has_usable \<and> \<not> p2_has_usable then
           append_log ''The battle ended in a draw!'' (b\<lparr>is_battle_over := True, winner := None\<rparr>)
         else if \<not> p1_has_usable then
           append_log (pname (player2 b) @ '' won the battle!'')
             (b\<lparr>is_battle_over := True, winner := Some P2\<rparr>)
         else if \<not> p2_has_usable then
           append_log (pname (player1 b) @ '' won the battle!'')
             (b\<lparr>is_battle_over := True, winner := Some P1\<rparr>)
         else b)"

subsection \<open>\<^verbatim>\<open>execute_turn\<close>\<close>

text \<open>The loop over the ordered actions, with its \<^verbatim>\<open>break\<close> once the battle is over.\<close>

fun run_actions ::
  "move_data \<Rightarrow> type_chart \<Rightarrow> (side \<times> action) list \<Rightarrow> battle \<Rightarrow> rng \<Rightarrow> py_error + (battle \<times> rng)" where
  "run_actions md chart [] b g = Inr (b, g)"
| "run_actions md chart ((sd, a) # rest) b g =
     (if is_battle_over b then Inr (b, g)
      else
        (case execute_action md chart sd a b g of
           Inl err \<Rightarrow> Inl err
         | Inr (b', g') \<Rightarrow> run_actions md chart rest (check_battle_end b') g'))"

definition execute_turn ::
  "move_data \<Rightarrow> type_chart \<Rightarrow> action \<Rightarrow> action \<Rightarrow> battle \<Rightarrow> rng \<Rightarrow> py_error + (battle \<times> rng)" where
  "execute_turn md chart player1_action player2_action b g =
     (let b = b\<lparr>current_turn := current_turn b + 1, battle_log := []\<rparr>;
          (actions, g) = determine_action_order md b player1_action player2_action g
      in case run_actions md chart actions b g of
           Inl err \<Rightarrow> Inl err
         | Inr (b, g) \<Rightarrow>
             if \<not> is_battle_over b
             then Inr (check_battle_end (apply_end_of_turn_effects b), g)
             else Inr (b, g))"

section \<open>Invariants\<close>

definition team_ok :: "pokemon list \<Rightarrow> bool" where
  "team_ok tm = list_all hp_ok tm"

definition battle_ok :: "battle \<Rightarrow> bool" where
  "battle_ok b = (team_ok (team (player1 b)) \<and> team_ok (team (player2 b)))"

text \<open>
  The fractions and powers of the move table are not negative: what the data model calls a
  heal fraction, a drain fraction and a power.
\<close>

definition move_wf :: "move \<Rightarrow> bool" where
  "move_wf mv =
     (0 \<le> move_power mv
      \<and> (case e_heal (move_effect mv) of None \<Rightarrow> True | Some h \<Rightarrow> 0 \<le> h)
      \<and> (case e_drain (move_effect mv) of None \<Rightarrow> True | Some d \<Rightarrow> 0 \<le> d))"

definition move_data_wf :: "move_data \<Rightarrow> bool" where
  "move_data_wf md = (\<forall>n mv. md n = Some mv \<longrightarrow> move_wf mv)"

section \<open>Example inputs\<close>

text \<open>
  A small type chart and move table of the shape of \<^verbatim>\<open>data.py\<close>, three Pokemon as
  \<^verbatim>\<open>__init__\<close> leaves them (full HP, all stages 0, no status), two players and a battle.
  The theorems below are instantiated at them.
\<close>

definition ex_chart :: type_chart where
  "ex_chart =
     [''Normal'' \<mapsto> [''Rock'' \<mapsto> 1 / 2, ''Ghost'' \<mapsto> 0, ''Steel'' \<mapsto> 1 / 2],
      ''Grass'' \<mapsto> [''Water'' \<mapsto> 2, ''Fire'' \<mapsto> 1 / 2, ''Poison'' \<mapsto> 1 / 2]]"

definition strength :: move where
  "strength =
     \<lparr>m_type = Some ''Normal'', m_category = Some ''Physical'', m_power = Some 80,
      m_accuracy = Some 100, m_effect = None, m_other_keys = False\<rparr>"

definition giga_drain :: move where
  "giga_drain =
     \<lparr>m_type = Some ''Grass'', m_category = Some ''Special'', m_power = Some 75,
      m_accuracy = Some 100, m_effect = Some (empty_effect\<lparr>e_drain := Some (1 / 2)\<rparr>),
      m_other_keys = False\<rparr>"

definition double_edge :: move where
  "double_edge =
     \<lparr>m_type = Some ''Normal'', m_category = Some ''Physical'', m_power = Some 120,
      m_accuracy = Some 100, m_effect = Some (empty_effect\<lparr>e_recoil := Some (1 / 3)\<rparr>),
      m_other_keys = False\<rparr>"

definition ex_moves :: move_data where
  "ex_moves =
     [''Strength'' \<mapsto> strength, ''Giga Drain'' \<mapsto> giga_drain, ''Double-Edge'' \<mapsto> double_edge]"

definition snorlax :: pokemon where
  "snorlax =
     \<lparr>nickname = ''Snorlax'', types = [''Normal''], level = 50,
      moves = [''Strength'', ''Double-Edge''], max_hp = 200, current_hp = 200,
      attack = 100, defense = 100, sp_attack = 70, sp_defense = 100, speed = 35,
      stat_stages = init_stat_stages, status = None\<rparr>"

definition blastoise :: pokemon where
  "blastoise =
     \<lparr>nickname = ''Blastoise'', types = [''Water''], level = 50,
      moves = [''Strength'', ''Giga Drain''], max_hp = 150, current_hp = 150,
      attack = 100, defense = 100, sp_attack = 90, sp_defense = 105, speed = 80,
      stat_stages = init_stat_stages, status = None\<rparr>"

definition gengar :: pokemon where
  "gengar =
     \<lparr>nickname = ''Gengar'', types = [''Ghost'', ''Poison''], level = 50,
      moves = [''Giga Drain''], max_hp = 120, current_hp = 120,
      attack = 70, defense = 65, sp_attack = 135, sp_defense = 80, speed = 115,
      stat_stages = init_stat_stages, status = None\<rparr>"

definition red :: player where
  "red = \<lparr>pname = ''Red'', team = [snorlax, blastoise], active_pokemon_index = 0, potions = 3\<rparr>"

definition blue :: player where
  "blue = \<lparr>pname = ''Blue'', team = [gengar, blastoise], active_pokemon_index = 0, potions = 3\<rparr>"

definition ex_battle :: battle where
  "ex_battle =
     \<lparr>player1 = red, player2 = blue, current_turn = 0, is_battle_over = False,
      winner = None, battle_log = []\<rparr>"


text \<open>
  Random sources: every draw \<open>1/2\<close> (no critical hit, variance \<open>0.925\<close>), and the first
  draw \<open>1\<close> (variance pinned to \<open>1.0\<close>) followed by draws of \<open>1/2\<close>.
\<close>

definition rng_half :: rng where
  "rng_half = (\<lambda>n. 1 / 2)"

definition rng_pinned :: rng where
  "rng_pinned = (\<lambda>n. if n = 0 then 1 else 1 / 2)"

definition ex_fx_drain :: fx where
  "ex_fx_drain =
     \<lparr>fx_attacker = blastoise\<lparr>current_hp := 100\<rparr>, fx_defender = blastoise\<lparr>current_hp := 84\<rparr>,
      fx_log = [], fx_rng = rng_half\<rparr>"

definition ex_fx_recoil :: fx where
  "ex_fx_recoil =
     \<lparr>fx_attacker = snorlax\<lparr>current_hp := 10\<rparr>, fx_defender = blastoise\<lparr>current_hp := 30\<rparr>,
      fx_log = [], fx_rng = rng_half\<rparr>"

definition ex_battle_drain :: battle where
  "ex_battle_drain =
     ex_battle
       \<lparr>player1 := red\<lparr>team := [snorlax, blastoise\<lparr>current_hp := 100\<rparr>],
                         active_pokemon_index := 1\<rparr>,
        player2 := blue\<lparr>team := [gengar, blastoise\<lparr>current_hp := 140\<rparr>],
                          active_pokemon_index := 1\<rparr>\<rparr>"

definition ex_battle_drain_ko :: battle where
  "ex_battle_drain_ko =
     ex_battle
       \<lparr>player1 := red\<lparr>team := [snorlax, blastoise\<lparr>current_hp := 100\<rparr>],
                         active_pokemon_index := 1\<rparr>,
        player2 := blue\<lparr>team := [gengar, blastoise\<lparr>current_hp := 40\<rparr>],
                          active_pokemon_index := 1\<rparr>\<rparr>"

definition ex_fx_drain_ko :: fx where
  "ex_fx_drain_ko =
     \<lparr>fx_attacker = blastoise\<lparr>current_hp := 100\<rparr>, fx_defender = blastoise\<lparr>current_hp := 0\<rparr>,
      fx_log = [], fx_rng = rng_half\<rparr>"

definition move_action :: "string \<Rightarrow> action" where
  "move_action m =
     \<lparr>a_type = Some ''move'', a_move = Some m, a_pokemon_index = None, a_item = None,
      a_target_index = None\<rparr>"

definition switch_action :: "int \<Rightarrow> action" where
  "switch_action i =
     \<lparr>a_type = Some ''switch'', a_move = None, a_pokemon_index = Some i, a_item = None,
      a_target_index = None\<rparr>"

definition potion_action :: "int \<Rightarrow> action" where
  "potion_action i =
     \<lparr>a_type = Some ''item'', a_move = None, a_pokemon_index = None, a_item = Some ''potion'',
      a_target_index = Some i\<rparr>"

definition pass_action :: action where
  "pass_action =
     \<lparr>a_type = Some ''pass'', a_move = None, a_pokemon_index = None, a_item = None,
      a_target_index = None\<rparr>"

section \<open>The damage formula\<close>

lemma py_int_372: "py_int (186 / 5) = 37" by (simp add: py_int_def floor_eq_iff)
lemma py_int_558: "py_int (279 / 5) = 55" by (simp add: py_int_def floor_eq_iff)

text \<open>
  C1 (as amended). Attacker of level 50, physical move of power 80, adjusted attack and
  adjusted defense both 100, composed effectiveness 1, damage variance pinned to 1.0, no
  critical hit: the formula gives \<open>((2*50/5+2)*80*100/100)/50+2 = 37.2\<close>, so the damage is
  37 without the same-type bonus and \<open>int(37.2 * 1.5) = 55\<close> with it; no line is logged.
\<close>

theorem calculate_damage_scenario:
  assumes lv: "level attacker = 50"
    and pw: "move_power mv = 80"
    and cat: "move_category mv = ''Physical''"
    and atk: "get_modified_stat ''attack'' attacker = 100"
    and dfn: "get_modified_stat ''defense'' defender = 100"
    and eff: "effectiveness_of chart (move_type mv) (types defender) = 1"
    and var: "fst (rand_uniform (85 / 100) 1 g) = 1"
    and crit: "\<not> fst (rand_random (snd (rand_uniform (85 / 100) 1 g))) < 625 / 10000"
  shows "map_sum id (\<lambda>(damage, lg', g'). (damage, lg')) (calculate_damage chart attacker defender mv lg g)
           = Inr (if move_type mv \<in> set (types attacker) then 55 else 37, lg)"
  using var crit
  by (simp add: calculate_damage_def Let_def lv pw cat atk dfn eff case_prod_beta py_int_372 py_int_558)

theorem calculate_damage_scenario_witness:
  "map_sum id (\<lambda>(damage, lg', g'). (damage, lg')) (calculate_damage ex_chart blastoise snorlax strength [] rng_pinned) = Inr (37, [])
   \<and> map_sum id (\<lambda>(damage, lg', g'). (damage, lg')) (calculate_damage ex_chart snorlax blastoise strength [] rng_pinned) = Inr (55, [])"
proof -
  have pw: "move_power strength = 80" by (simp add: move_power_def strength_def)
  have cat: "move_category strength = ''Physical''" by (simp add: move_category_def strength_def)
  have mt: "move_type strength = ''Normal''" by (simp add: move_type_def strength_def)
  have a1: "get_modified_stat ''attack'' blastoise = 100" by code_simp
  have a2: "get_modified_stat ''attack'' snorlax = 100" by code_simp
  have d1: "get_modified_stat ''defense'' blastoise = 100" by code_simp
  have d2: "get_modified_stat ''defense'' snorlax = 100" by code_simp
  have e1: "effectiveness_of ex_chart (move_type strength) (types snorlax) = 1" by code_simp
  have e2: "effectiveness_of ex_chart (move_type strength) (types blastoise) = 1" by code_simp
  have var: "fst (rand_uniform (85 / 100) 1 rng_pinned) = 1" by (simp add: rand_uniform_def rng_pinned_def)
  have crit: "\<not> fst (rand_random (snd (rand_uniform (85 / 100) 1 rng_pinned))) < 625 / 10000"
    by (simp add: rand_uniform_def rand_random_def rng_pinned_def)
  have l1: "level blastoise = 50" by (simp add: blastoise_def)
  have l2: "level snorlax = 50" by (simp add: snorlax_def)
  have t1: "move_type strength \<notin> set (types blastoise)" by (simp add: mt blastoise_def)
  have t2: "move_type strength \<in> set (types snorlax)" by (simp add: mt snorlax_def)
  show ?thesis
    using calculate_damage_scenario [OF l1 pw cat a1 d2 e1 var crit, of "[]"]
          calculate_damage_scenario [OF l2 pw cat a2 d1 e2 var crit, of "[]"] t1 t2
    by simp
qed

text \<open>
  C1 as stated, with 42 and 63 for the two results, fails at the example: all the
  conditions of the scenario hold there and the damage is neither 42 nor 63.
\<close>

theorem calculate_damage_scenario_not_42:
  "level blastoise = 50 \<and> move_power strength = 80 \<and> move_category strength = ''Physical''
   \<and> get_modified_stat ''attack'' blastoise = 100 \<and> get_modified_stat ''defense'' snorlax = 100
   \<and> effectiveness_of ex_chart (move_type strength) (types snorlax) = 1
   \<and> fst (rand_uniform (85 / 100) 1 rng_pinned) = 1
   \<and> \<not> fst (rand_random (snd (rand_uniform (85 / 100) 1 rng_pinned))) < 625 / 10000
   \<and> move_type strength \<notin> set (types blastoise)
   \<and> map_sum id fst (calculate_damage ex_chart blastoise snorlax strength [] rng_pinned) \<noteq> Inr 42
   \<and> move_type strength \<in> set (types snorlax)
   \<and> map_sum id fst (calculate_damage ex_chart snorlax blastoise strength [] rng_pinned) \<noteq> Inr 63"
  by code_simp

section \<open>Immunity\<close>

text \<open>
  Whatever the stats and the draws, a move of non-zero power against an immune defender
  comes out of \<^verbatim>\<open>_calculate_damage\<close> with damage 1.
\<close>

lemma calculate_damage_immune:
  assumes "calculate_damage chart attacker defender mv lg g = Inr (damage, lg', g')"
    and "move_power mv \<noteq> 0"
    and "effectiveness_of chart (move_type mv) (types defender) = 0"
  shows "damage = 1"
  using assms
  by (auto simp: calculate_damage_def Let_def case_prod_beta py_int_def split: if_splits)

text \<open>
  C2. A physical or special move whose composed effectiveness is 0 should leave the
  defender's HP unchanged. In the code the product 0 goes through \<^verbatim>\<open>max(1, int(damage))\<close>
  and \<^verbatim>\<open>take_damage\<close>: Snorlax uses the Normal move Strength on the Ghost Gengar, the
  log says that it doesn't affect Gengar, and Gengar goes from 120 to 119 HP.
\<close>

theorem immune_move_still_damages:
  "effectiveness_of ex_chart (move_type strength) (types gengar) = 0
   \<and> map_sum id (\<lambda>(b, g). (battle_log b, map current_hp (team (player2 b))))
        (execute_move ex_moves ex_chart P1 ''Strength'' ex_battle rng_half)
      = Inr ([''Red's Snorlax used Strength!'', ''It doesn't affect Gengar...'',
              ''Gengar took 1 damage!''], [119, 150])"
  by code_simp

section \<open>\<^verbatim>\<open>take_damage\<close>\<close>

lemma take_damage_result:
  "take_damage d p = (p\<lparr>current_hp := max 0 (current_hp p - max 1 d)\<rparr>, max 1 d)"
  by (simp add: take_damage_def Let_def)

text \<open>
  C3. \<^verbatim>\<open>take_damage\<close> should return the amount actually applied, the HP before minus the
  HP after. It returns the clamped request: 500 damage on Gengar at 120 HP removes 120 HP
  and returns 500.
\<close>

theorem take_damage_returns_request:
  "current_hp gengar = 120
   \<and> snd (take_damage 500 gengar) = 500
   \<and> current_hp gengar - current_hp (fst (take_damage 500 gengar)) = 120"
  by (simp add: take_damage_result gengar_def)

section \<open>Stat stages\<close>

lemma get_modified_stat_other:
  "stat_name \<notin> {''attack'', ''defense'', ''sp_attack'', ''sp_defense'', ''speed''}
     \<Longrightarrow> get_modified_stat stat_name p = 1"
  by (simp add: get_modified_stat_def)

text \<open>
  C4. For accuracy and evasion \<^verbatim>\<open>get_modified_stat\<close> should return \<open>(3+s)/3\<close> or
  \<open>3/(3-s)\<close>. The early return gives \<open>1.0\<close> whatever the stage: at accuracy stage 3
  (expected 2) and at evasion stage -2 (expected 3/5) the result is 1.
\<close>

theorem accuracy_stage_ignored:
  "stage_of (snorlax\<lparr>stat_stages := init_stat_stages(''accuracy'' \<mapsto> 3)\<rparr>) ''accuracy'' = 3
   \<and> get_modified_stat ''accuracy'' (snorlax\<lparr>stat_stages := init_stat_stages(''accuracy'' \<mapsto> 3)\<rparr>) = 1
   \<and> stage_of (snorlax\<lparr>stat_stages := init_stat_stages(''evasion'' \<mapsto> - 2)\<rparr>) ''evasion'' = - 2
   \<and> get_modified_stat ''evasion'' (snorlax\<lparr>stat_stages := init_stat_stages(''evasion'' \<mapsto> - 2)\<rparr>) = 1"
  by (simp add: get_modified_stat_other stage_of_def)

lemma modify_stat_stage_ok: "stages_ok p \<Longrightarrow> stages_ok (fst (modify_stat_stage stat d p))"
  by (auto simp: stages_ok_def modify_stat_stage_def Let_def split: option.splits)

lemma modify_stat_stage_delta:
  "snd (modify_stat_stage stat d p)
     = stage_of (fst (modify_stat_stage stat d p)) stat - stage_of p stat"
  by (auto simp: stage_of_def modify_stat_stage_def Let_def split: option.splits)

lemma modify_stat_stage_small:
  "stages_ok p \<Longrightarrow> \<bar>snd (modify_stat_stage stat d p)\<bar> \<le> \<bar>d\<bar>"
proof (cases "stat_stages p stat")
  case None
  then show ?thesis by (simp add: modify_stat_stage_def)
next
  case (Some v)
  assume "stages_ok p"
  with Some have "- 6 \<le> v \<and> v \<le> 6" by (simp add: stages_ok_def)
  then have "\<bar>max (- 6) (min 6 (v + d)) - v\<bar> \<le> \<bar>d\<bar>" by arith
  with Some show ?thesis by (simp add: modify_stat_stage_def Let_def)
qed

lemma modify_many_ok: "stages_ok p \<Longrightarrow> stages_ok (fst (modify_many cs p))"
proof (induction cs arbitrary: p)
  case Nil then show ?case by simp
next
  case (Cons c cs)
  obtain stat d where c: "c = (stat, d)" by (cases c)
  have "stages_ok (fst (modify_stat_stage stat d p))" using Cons.prems by (rule modify_stat_stage_ok)
  from Cons.IH[OF this] show ?case by (simp add: c case_prod_beta)
qed

lemma modify_many_step: "i < length cs \<Longrightarrow>
   fst (modify_many (take (Suc i) cs) p)
     = fst (modify_stat_stage (fst (cs ! i)) (snd (cs ! i)) (fst (modify_many (take i cs) p)))
 \<and> snd (modify_many cs p) ! i
     = snd (modify_stat_stage (fst (cs ! i)) (snd (cs ! i)) (fst (modify_many (take i cs) p)))"
proof (induction cs arbitrary: p i)
  case Nil then show ?case by simp
next
  case (Cons c cs)
  obtain stat d where c: "c = (stat, d)" by (cases c)
  show ?case
  proof (cases i)
    case 0 then show ?thesis by (simp add: c case_prod_beta)
  next
    case (Suc j)
    then have "j < length cs" using Cons.prems by simp
    from Cons.IH[OF this, of "fst (modify_stat_stage stat d p)"] show ?thesis
      by (simp add: c Suc case_prod_beta)
  qed
qed

text \<open>
  C6. From a Pokemon whose stages are within \<open>[-6, 6]\<close>, any sequence of
  \<^verbatim>\<open>modify_stat_stage\<close> calls leaves every stored stage within \<open>[-6, 6]\<close>; the value that
  the \<open>i\<close>-th call returns is the stage of its stat after the call minus the stage before
  it, and is no larger in magnitude than the delta requested.
\<close>

theorem stat_stage_stays_clamped:
  assumes ok: "stages_ok p"
  shows "stages_ok (fst (modify_many cs p))
    \<and> (\<forall>i < length cs.
          snd (modify_many cs p) ! i
            = stage_of (fst (modify_many (take (Suc i) cs) p)) (fst (cs ! i))
              - stage_of (fst (modify_many (take i cs) p)) (fst (cs ! i))
          \<and> \<bar>snd (modify_many cs p) ! i\<bar> \<le> \<bar>snd (cs ! i)\<bar>)"
proof (intro conjI allI impI)
  show "stages_ok (fst (modify_many cs p))" using ok by (rule modify_many_ok)
next
  fix i assume i: "i < length cs"
  let ?q = "fst (modify_many (take i cs) p)"
  have q: "stages_ok ?q" using ok by (rule modify_many_ok)
  note st = modify_many_step [OF i, of p]
  show "snd (modify_many cs p) ! i
            = stage_of (fst (modify_many (take (Suc i) cs) p)) (fst (cs ! i))
              - stage_of (fst (modify_many (take i cs) p)) (fst (cs ! i))"
    using st modify_stat_stage_delta [of "fst (cs ! i)" "snd (cs ! i)" ?q] by simp
  show "\<bar>snd (modify_many cs p) ! i\<bar> \<le> \<bar>snd (cs ! i)\<bar>"
    using st modify_stat_stage_small [OF q, of "fst (cs ! i)" "snd (cs ! i)"] by simp
qed

lemma stages_ok_init: "stat_stages p = init_stat_stages \<Longrightarrow> stages_ok p"
  by (auto simp: stages_ok_def init_stat_stages_def split: if_splits)

theorem stat_stage_stays_clamped_witness:
  "stages_ok snorlax
   \<and> stages_ok (fst (modify_many [(''attack'', 4), (''attack'', 5), (''attack'', - 20)] snorlax))
   \<and> snd (modify_many [(''attack'', 4), (''attack'', 5), (''attack'', - 20)] snorlax) = [4, 2, - 12]
   \<and> \<bar>snd (modify_many [(''attack'', 4), (''attack'', 5), (''attack'', - 20)] snorlax) ! 1\<bar>
        \<le> \<bar>snd ([(''attack'', 4), (''attack'', 5), (''attack'', - 20)] ! 1)\<bar>"
proof -
  have ok: "stages_ok snorlax" by (rule stages_ok_init) (simp add: snorlax_def)
  have ev: "snd (modify_many [(''attack'', 4), (''attack'', 5), (''attack'', - 20)] snorlax) = [4, 2, - 12]"
    by code_simp
  have len: "(1::nat) < length [(''attack'', 4::int), (''attack'', 5), (''attack'', - 20)]" by simp
  show ?thesis
    using ok ev len
      stat_stage_stays_clamped [OF ok, of "[(''attack'', 4), (''attack'', 5), (''attack'', - 20)]"]
    by blast
qed

section \<open>Action order\<close>

lemma determine_action_order_cases:
  "(a_type a1 = Some ''pass'' \<and> a_type a2 \<noteq> Some ''pass''
      \<longrightarrow> determine_action_order md b a1 a2 g = ([(P2, a2)], g))
   \<and> (a_type a2 = Some ''pass'' \<and> a_type a1 \<noteq> Some ''pass''
      \<longrightarrow> determine_action_order md b a1 a2 g = ([(P1, a1)], g))
   \<and> (a_type a1 \<in> {Some ''switch'', Some ''item''} \<and> a_type a2 = Some ''move''
      \<longrightarrow> determine_action_order md b a1 a2 g = ([(P1, a1), (P2, a2)], g))
   \<and> (a_type a2 \<in> {Some ''switch'', Some ''item''} \<and> a_type a1 = Some ''move''
      \<longrightarrow> determine_action_order md b a1 a2 g = ([(P2, a2), (P1, a1)], g))"
  by (auto simp: determine_action_order_def)

lemma execute_turn_run:
  "execute_turn md chart a1 a2 b g =
     (case run_actions md chart
             (fst (determine_action_order md
                     (b\<lparr>current_turn := current_turn b + 1, battle_log := []\<rparr>) a1 a2 g))
             (b\<lparr>current_turn := current_turn b + 1, battle_log := []\<rparr>)
             (snd (determine_action_order md
                     (b\<lparr>current_turn := current_turn b + 1, battle_log := []\<rparr>) a1 a2 g)) of
        Inl err \<Rightarrow> Inl err
      | Inr (b1, g1) \<Rightarrow>
          if \<not> is_battle_over b1
          then Inr (check_battle_end (apply_end_of_turn_effects b1), g1)
          else Inr (b1, g1))"
  by (simp add: execute_turn_def Let_def case_prod_beta)

lemma run_actions_one:
  "run_actions md chart [(sd, a)] b g =
     (if is_battle_over b then Inr (b, g)
      else (case execute_action md chart sd a b g of
              Inl err \<Rightarrow> Inl err
            | Inr (b2, g2) \<Rightarrow> Inr (check_battle_end b2, g2)))"
  by (simp split: sum.splits)

lemma run_actions_two:
  "run_actions md chart [(sd, a), (sd', a')] b g =
     (case (if is_battle_over b then Inr (b, g)
            else (case execute_action md chart sd a b g of
                    Inl err \<Rightarrow> Inl err
                  | Inr (b2, g2) \<Rightarrow> Inr (check_battle_end b2, g2))) of
        Inl err \<Rightarrow> Inl err
      | Inr (b1, g1) \<Rightarrow>
          if is_battle_over b1 then Inr (b1, g1)
          else (case execute_action md chart sd' a' b1 g1 of
                  Inl err \<Rightarrow> Inl err
                | Inr (b2, g2) \<Rightarrow> Inr (check_battle_end b2, g2)))"
  by (simp split: sum.splits)

lemma execute_action_dispatch:
  "(a_type a = Some ''move''
      \<longrightarrow> execute_action md chart sd a b g = execute_move md chart sd (action_move a) b g)
   \<and> (a_type a = Some ''switch''
      \<longrightarrow> execute_action md chart sd a b g
            = map_sum id (\<lambda>b'. (b', g))
                (execute_switch sd (case a_pokemon_index a of None \<Rightarrow> 0 | Some i \<Rightarrow> i) b))
   \<and> (a_type a = Some ''item''
      \<longrightarrow> execute_action md chart sd a b g
            = Inr (execute_item sd (case a_item a of None \<Rightarrow> [] | Some i \<Rightarrow> i)
                     (case a_target_index a of None \<Rightarrow> 0 | Some i \<Rightarrow> i) b, g))
   \<and> (a_type a = Some ''pass'' \<longrightarrow> execute_action md chart sd a b g = Inr (b, g))"
  by (auto simp: execute_action_def split: sum.splits)

text \<open>
  C7. \<open>step\<close> is one round of the loop of \<^verbatim>\<open>execute_turn\<close> (skip when the battle is over,
  else execute the action and check for the end of the battle) and \<open>finish\<close> is the
  end-of-turn phase. When exactly one side passes, the order is the other side's action
  alone, no random draw is made, and the turn executes that one action and finishes. When
  one side switches or uses an item and the other side uses a move, the turn executes the
  switch or item first, on the state at the start of the turn, and the move second, on the
  state that the first action has left. Executing an action is executing its move, its
  switch or its item; a pass changes nothing.
\<close>

theorem action_order_pass_and_non_move_first:
  "let b0 = b\<lparr>current_turn := current_turn b + 1, battle_log := []\<rparr>;
       step = (\<lambda>sd a r.
                 case r of
                   Inl err \<Rightarrow> Inl err
                 | Inr (b1, g1) \<Rightarrow>
                     if is_battle_over b1 then Inr (b1, g1)
                     else (case execute_action md chart sd a b1 g1 of
                             Inl err \<Rightarrow> Inl err
                           | Inr (b2, g2) \<Rightarrow> Inr (check_battle_end b2, g2)));
       finish = (\<lambda>r.
                 case r of
                   Inl err \<Rightarrow> Inl err
                 | Inr (b1, g1) \<Rightarrow>
                     if \<not> is_battle_over b1
                     then Inr (check_battle_end (apply_end_of_turn_effects b1), g1)
                     else Inr (b1, g1))
   in (a_type a1 = Some ''pass'' \<and> a_type a2 \<noteq> Some ''pass''
        \<longrightarrow> determine_action_order md b a1 a2 g = ([(P2, a2)], g)
          \<and> execute_turn md chart a1 a2 b g = finish (step P2 a2 (Inr (b0, g))))
    \<and> (a_type a2 = Some ''pass'' \<and> a_type a1 \<noteq> Some ''pass''
        \<longrightarrow> determine_action_order md b a1 a2 g = ([(P1, a1)], g)
          \<and> execute_turn md chart a1 a2 b g = finish (step P1 a1 (Inr (b0, g))))
    \<and> (a_type a1 \<in> {Some ''switch'', Some ''item''} \<and> a_type a2 = Some ''move''
        \<longrightarrow> determine_action_order md b a1 a2 g = ([(P1, a1), (P2, a2)], g)
          \<and> execute_turn md chart a1 a2 b g
              = finish (step P2 a2 (step P1 a1 (Inr (b0, g)))))
    \<and> (a_type a2 \<in> {Some ''switch'', Some ''item''} \<and> a_type a1 = Some ''move''
        \<longrightarrow> determine_action_order md b a1 a2 g = ([(P2, a2), (P1, a1)], g)
          \<and> execute_turn md chart a1 a2 b g
              = finish (step P1 a1 (step P2 a2 (Inr (b0, g)))))
    \<and> (a_type a = Some ''move''
        \<longrightarrow> execute_action md chart sd a b g = execute_move md chart sd (action_move a) b g)
    \<and> (a_type a = Some ''switch''
        \<longrightarrow> execute_action md chart sd a b g
              = map_sum id (\<lambda>b'. (b', g))
                  (execute_switch sd (case a_pokemon_index a of None \<Rightarrow> 0 | Some i \<Rightarrow> i) b))
    \<and> (a_type a = Some ''item''
        \<longrightarrow> execute_action md chart sd a b g
              = Inr (execute_item sd (case a_item a of None \<Rightarrow> [] | Some i \<Rightarrow> i)
                       (case a_target_index a of None \<Rightarrow> 0 | Some i \<Rightarrow> i) b, g))
    \<and> (a_type a = Some ''pass'' \<longrightarrow> execute_action md chart sd a b g = Inr (b, g))"
proof -
  let ?b0 = "b\<lparr>current_turn := current_turn b + 1, battle_log := []\<rparr>"
  note o = determine_action_order_cases [of a1 a2 md b g]
  note o0 = determine_action_order_cases [of a1 a2 md ?b0 g]
  note d = execute_action_dispatch [of a md chart sd b g]
  show ?thesis
    unfolding Let_def
  proof (intro conjI impI)
    assume h: "a_type a1 = Some ''pass'' \<and> a_type a2 \<noteq> Some ''pass''"
    show "determine_action_order md b a1 a2 g = ([(P2, a2)], g)" using o h by blast
    have "determine_action_order md ?b0 a1 a2 g = ([(P2, a2)], g)" using o0 h by blast
    then show "execute_turn md chart a1 a2 b g =
      (case (case Inr (?b0, g) of
               Inl err \<Rightarrow> Inl err
             | Inr (b1, g1) \<Rightarrow>
                 if is_battle_over b1 then Inr (b1, g1)
                 else (case execute_action md chart P2 a2 b1 g1 of
                         Inl err \<Rightarrow> Inl err
                       | Inr (b2, g2) \<Rightarrow> Inr (check_battle_end b2, g2))) of
         Inl err \<Rightarrow> Inl err
       | Inr (b1, g1) \<Rightarrow>
           if \<not> is_battle_over b1
           then Inr (check_battle_end (apply_end_of_turn_effects b1), g1)
           else Inr (b1, g1))"
      by (simp only: execute_turn_run run_actions_one fst_conv snd_conv sum.case prod.case)
  next
    assume h: "a_type a2 = Some ''pass'' \<and> a_type a1 \<noteq> Some ''pass''"
    show "determine_action_order md b a1 a2 g = ([(P1, a1)], g)" using o h by blast
    have "determine_action_order md ?b0 a1 a2 g = ([(P1, a1)], g)" using o0 h by blast
    then show "execute_turn md chart a1 a2 b g =
      (case (case Inr (?b0, g) of
               Inl err \<Rightarrow> Inl err
             | Inr (b1, g1) \<Rightarrow>
                 if is_battle_over b1 then Inr (b1, g1)
                 else (case execute_action md chart P1 a1 b1 g1 of
                         Inl err \<Rightarrow> Inl err
                       | Inr (b2, g2) \<Rightarrow> Inr (check_battle_end b2, g2))) of
         Inl err \<Rightarrow> Inl err
       | Inr (b1, g1) \<Rightarrow>
           if \<not> is_battle_over b1
           then Inr (check_battle_end (apply_end_of_turn_effects b1), g1)
           else Inr (b1, g1))"
      by (simp only: execute_turn_run run_actions_one fst_conv snd_conv sum.case prod.case)
  next
    assume h: "a_type a1 \<in> {Some ''switch'', Some ''item''} \<and> a_type a2 = Some ''move''"
    show "determine_action_order md b a1 a2 g = ([(P1, a1), (P2, a2)], g)" using o h by blast
    have "determine_action_order md ?b0 a1 a2 g = ([(P1, a1), (P2, a2)], g)" using o0 h by blast
    then show "execute_turn md chart a1 a2 b g =
      (case (case (case Inr (?b0, g) of
                     Inl err \<Rightarrow> Inl err
                   | Inr (b1, g1) \<Rightarrow>
                       if is_battle_over b1 then Inr (b1, g1)
                       else (case execute_action md chart P1 a1 b1 g1 of
                               Inl err \<Rightarrow> Inl err
                             | Inr (b2, g2) \<Rightarrow> Inr (check_battle_end b2, g2))) of
               Inl err \<Rightarrow> Inl err
             | Inr (b1, g1) \<Rightarrow>
                 if is_battle_over b1 then Inr (b1, g1)
                 else (case execute_action md chart P2 a2 b1 g1 of
                         Inl err \<Rightarrow> Inl err
                       | Inr (b2, g2) \<Rightarrow> Inr (check_battle_end b2, g2))) of
         Inl err \<Rightarrow> Inl err
       | Inr (b1, g1) \<Rightarrow>
           if \<not> is_battle_over b1
           then Inr (check_battle_end (apply_end_of_turn_effects b1), g1)
           else Inr (b1, g1))"
      by (simp only: execute_turn_run run_actions_two fst_conv snd_conv sum.case prod.case)
  next
    assume h: "a_type a2 \<in> {Some ''switch'', Some ''item''} \<and> a_type a1 = Some ''move''"
    show "determine_action_order md b a1 a2 g = ([(P2, a2), (P1, a1)], g)" using o h by blast
    have "determine_action_order md ?b0 a1 a2 g = ([(P2, a2), (P1, a1)], g)" using o0 h by blast
    then show "execute_turn md chart a1 a2 b g =
      (case (case (case Inr (?b0, g) of
                     Inl err \<Rightarrow> Inl err
                   | Inr (b1, g1) \<Rightarrow>
                       if is_battle_over b1 then Inr (b1, g1)
                       else (case execute_action md chart P2 a2 b1 g1 of
                               Inl err \<Rightarrow> Inl err
                             | Inr (b2, g2) \<Rightarrow> Inr (check_battle_end b2, g2))) of
               Inl err \<Rightarrow> Inl err
             | Inr (b1, g1) \<Rightarrow>
                 if is_battle_over b1 then Inr (b1, g1)
                 else (case execute_action md chart P1 a1 b1 g1 of
                         Inl err \<Rightarrow> Inl err
                       | Inr (b2, g2) \<Rightarrow> Inr (check_battle_end b2, g2))) of
         Inl err \<Rightarrow> Inl err
       | Inr (b1, g1) \<Rightarrow>
           if \<not> is_battle_over b1
           then Inr (check_battle_end (apply_end_of_turn_effects b1), g1)
           else Inr (b1, g1))"
      by (simp only: execute_turn_run run_actions_two fst_conv snd_conv sum.case prod.case)
  next
    assume "a_type a = Some ''move''"
    then show "execute_action md chart sd a b g = execute_move md chart sd (action_move a) b g"
      using d by blast
  next
    assume "a_type a = Some ''switch''"
    then show "execute_action md chart sd a b g
              = map_sum id (\<lambda>b'. (b', g))
                  (execute_switch sd (case a_pokemon_index a of None \<Rightarrow> 0 | Some i \<Rightarrow> i) b)"
      using d by blast
  next
    assume "a_type a = Some ''item''"
    then show "execute_action md chart sd a b g
              = Inr (execute_item sd (case a_item a of None \<Rightarrow> [] | Some i \<Rightarrow> i)
                       (case a_target_index a of None \<Rightarrow> 0 | Some i \<Rightarrow> i) b, g)"
      using d by blast
  next
    assume "a_type a = Some ''pass''"
    then show "execute_action md chart sd a b g = Inr (b, g)" using d by blast
  qed
qed

theorem action_order_pass_and_non_move_first_witness:
  "determine_action_order ex_moves ex_battle pass_action (move_action ''Giga Drain'') rng_half
     = ([(P2, move_action ''Giga Drain'')], rng_half)
   \<and> determine_action_order ex_moves ex_battle (switch_action 1) pass_action rng_half
     = ([(P1, switch_action 1)], rng_half)
   \<and> determine_action_order ex_moves ex_battle (switch_action 1) (move_action ''Giga Drain'') rng_half
     = ([(P1, switch_action 1), (P2, move_action ''Giga Drain'')], rng_half)
   \<and> determine_action_order ex_moves ex_battle_drain (move_action ''Strength'') (potion_action 1) rng_half
     = ([(P2, potion_action 1), (P1, move_action ''Strength'')], rng_half)
   \<and> map_sum id (\<lambda>(b, g). (battle_log b, map current_hp (team (player1 b)),
                              map current_hp (team (player2 b)), active_pokemon_index (player1 b)))
        (execute_turn ex_moves ex_chart pass_action (move_action ''Giga Drain'') ex_battle rng_half)
       = Inr ([''Blue'' @ apos_s @ ''Gengar used Giga Drain!'', ''Snorlax took 43 damage!''],
              [157, 150], [120, 150], 0)
   \<and> map_sum id (\<lambda>(b, g). (battle_log b, map current_hp (team (player1 b)),
                              map current_hp (team (player2 b)), active_pokemon_index (player1 b)))
        (execute_turn ex_moves ex_chart (switch_action 1) (move_action ''Giga Drain'') ex_battle
           rng_half)
       = Inr ([''Red withdrew their '' @ pokemon_word @ ''!'', ''Red sent out Blastoise!'',
               ''Blue'' @ apos_s @ ''Gengar used Giga Drain!'', ''It's super effective!'',
               ''Blastoise took 82 damage!''],
              [200, 68], [120, 150], 1)
   \<and> map_sum id (\<lambda>(b, g). (battle_log b, map current_hp (team (player1 b)),
                              map current_hp (team (player2 b)), potions (player2 b)))
        (execute_turn ex_moves ex_chart (move_action ''Strength'') (potion_action 1)
           ex_battle_drain rng_half)
       = Inr ([''Blue used a Potion on Blastoise!'', ''Blastoise restored some HP!'',
               ''Red'' @ apos_s @ ''Blastoise used Strength!'', ''Blastoise took 34 damage!''],
              [200, 100], [120, 116], 2)"
proof -
  note t1 = action_order_pass_and_non_move_first
    [where ?a1.0 = pass_action and ?a2.0 = "move_action ''Giga Drain''" and md = ex_moves
       and b = ex_battle and g = rng_half]
  note t2 = action_order_pass_and_non_move_first
    [where ?a1.0 = "switch_action 1" and ?a2.0 = pass_action and md = ex_moves
       and b = ex_battle and g = rng_half]
  note t3 = action_order_pass_and_non_move_first
    [where ?a1.0 = "switch_action 1" and ?a2.0 = "move_action ''Giga Drain''" and md = ex_moves
       and b = ex_battle and g = rng_half]
  note t4 = action_order_pass_and_non_move_first
    [where ?a1.0 = "move_action ''Strength''" and ?a2.0 = "potion_action 1" and md = ex_moves
       and b = ex_battle_drain and g = rng_half]
  have o1: "determine_action_order ex_moves ex_battle pass_action (move_action ''Giga Drain'') rng_half
     = ([(P2, move_action ''Giga Drain'')], rng_half)"
    using t1 by (simp add: Let_def pass_action_def move_action_def)
  have o2: "determine_action_order ex_moves ex_battle (switch_action 1) pass_action rng_half
     = ([(P1, switch_action 1)], rng_half)"
    using t2 by (simp add: Let_def pass_action_def switch_action_def)
  have o3: "determine_action_order ex_moves ex_battle (switch_action 1) (move_action ''Giga Drain'') rng_half
     = ([(P1, switch_action 1), (P2, move_action ''Giga Drain'')], rng_half)"
    using t3 by (simp add: Let_def move_action_def switch_action_def)
  have o4: "determine_action_order ex_moves ex_battle_drain (move_action ''Strength'') (potion_action 1) rng_half
     = ([(P2, potion_action 1), (P1, move_action ''Strength'')], rng_half)"
    using t4 by (simp add: Let_def move_action_def potion_action_def)
  have e1: "map_sum id (\<lambda>(b, g). (battle_log b, map current_hp (team (player1 b)),
                              map current_hp (team (player2 b)), active_pokemon_index (player1 b)))
        (execute_turn ex_moves ex_chart pass_action (move_action ''Giga Drain'') ex_battle rng_half)
       = Inr ([''Blue'' @ apos_s @ ''Gengar used Giga Drain!'', ''Snorlax took 43 damage!''],
              [157, 150], [120, 150], 0)"
    by code_simp
  have e3: "map_sum id (\<lambda>(b, g). (battle_log b, map current_hp (team (player1 b)),
                              map current_hp (team (player2 b)), active_pokemon_index (player1 b)))
        (execute_turn ex_moves ex_chart (switch_action 1) (move_action ''Giga Drain'') ex_battle
           rng_half)
       = Inr ([''Red withdrew their '' @ pokemon_word @ ''!'', ''Red sent out Blastoise!'',
               ''Blue'' @ apos_s @ ''Gengar used Giga Drain!'', ''It's super effective!'',
               ''Blastoise took 82 damage!''],
              [200, 68], [120, 150], 1)"
    by code_simp
  have e4: "map_sum id (\<lambda>(b, g). (battle_log b, map current_hp (team (player1 b)),
                              map current_hp (team (player2 b)), potions (player2 b)))
        (execute_turn ex_moves ex_chart (move_action ''Strength'') (potion_action 1)
           ex_battle_drain rng_half)
       = Inr ([''Blue used a Potion on Blastoise!'', ''Blastoise restored some HP!'',
               ''Red'' @ apos_s @ ''Blastoise used Strength!'', ''Blastoise took 34 damage!''],
              [200, 100], [120, 116], 2)"
    by code_simp
  show ?thesis using o1 o2 o3 o4 e1 e3 e4 by blast
qed

section \<open>Potions\<close>

lemma set_get_player [simp]: "set_player sd (get_player sd b) b = b"
  by (cases sd) simp_all

lemma use_potion_ok_iff:
  "snd (use_potion i pl) \<longleftrightarrow>
     (1 \<le> potions pl \<and> 0 \<le> i \<and> i < int (length (team pl))
      \<and> \<not> is_fainted (team pl ! nat i)
      \<and> current_hp (team pl ! nat i) < max_hp (team pl ! nat i))"
  by (auto simp: use_potion_def Let_def)

lemma use_potion_fail: "\<not> snd (use_potion i pl) \<Longrightarrow> fst (use_potion i pl) = pl"
  by (auto simp: use_potion_def Let_def split: if_splits)

lemma use_potion_success:
  assumes "snd (use_potion i pl)"
  shows "fst (use_potion i pl)
    = pl\<lparr>team := (team pl)[nat i := (team pl ! nat i)
                      \<lparr>current_hp := min (max_hp (team pl ! nat i)) (current_hp (team pl ! nat i) + 20)\<rparr>],
         potions := potions pl - 1\<rparr>"
proof -
  let ?t = "team pl ! nat i"
  from assms have c: "1 \<le> potions pl" "0 \<le> i" "i < int (length (team pl))"
    "\<not> is_fainted ?t" "current_hp ?t < max_hp ?t"
    by (simp_all add: use_potion_ok_iff)
  have "min (max_hp ?t) (current_hp ?t + min 20 (max_hp ?t - current_hp ?t))
        = min (max_hp ?t) (current_hp ?t + 20)" by arith
  with c show ?thesis by (simp add: use_potion_def Let_def heal_def)
qed



section \<open>Switching\<close>

text \<open>
  C10. A switch to the roster index that is already active succeeds when that Pokemon has
  not fainted: \<^verbatim>\<open>switch_pokemon\<close> returns true and leaves the player as it was, and the
  engine logs the withdraw line and the send-out line.
\<close>

theorem switch_to_active_succeeds:
  assumes act: "active_pokemon (get_player sd b) = Some pk"
    and alive: "\<not> is_fainted pk"
  shows "switch_pokemon (int (active_pokemon_index (get_player sd b))) (get_player sd b)
           = (get_player sd b, True)
    \<and> execute_switch sd (int (active_pokemon_index (get_player sd b))) b
           = Inr (append_log (pname (get_player sd b) @ '' sent out '' @ nickname pk @ ''!'')
                   (append_log (pname (get_player sd b) @ '' withdrew their '' @ pokemon_word @ ''!'')
                      b))"
proof -
  let ?pl = "get_player sd b"
  from act have lt: "active_pokemon_index ?pl < length (team ?pl)"
    and pk: "team ?pl ! active_pokemon_index ?pl = pk"
    by (auto simp: active_pokemon_def split: if_splits)
  have sw: "switch_pokemon (int (active_pokemon_index ?pl)) ?pl = (?pl, True)"
    using lt pk alive by (simp add: switch_pokemon_def)
  show ?thesis using sw act by (simp add: execute_switch_def)
qed

theorem switch_to_active_succeeds_witness:
  "active_pokemon (get_player P1 ex_battle) = Some snorlax \<and> \<not> is_fainted snorlax
   \<and> switch_pokemon 0 red = (red, True)
   \<and> map_sum id battle_log (execute_switch P1 0 ex_battle)
       = Inr [''Red withdrew their '' @ pokemon_word @ ''!'', ''Red sent out Snorlax!'']"
proof -
  have act: "active_pokemon (get_player P1 ex_battle) = Some snorlax"
    by (simp add: active_pokemon_def ex_battle_def red_def)
  have alive: "\<not> is_fainted snorlax" by (simp add: is_fainted_def snorlax_def)
  have pl: "player1 ex_battle = red" by (simp add: ex_battle_def)
  have nm: "pname red = ''Red''" "nickname snorlax = ''Snorlax''" "battle_log ex_battle = []"
    "active_pokemon_index red = 0"
    by (simp_all add: red_def snorlax_def ex_battle_def)
  show ?thesis
    using switch_to_active_succeeds [OF act alive] act alive
    by (simp add: pl nm append_log_def)
qed

section \<open>HP through the blocks of \<^verbatim>\<open>_apply_move_effects\<close>\<close>

lemma py_int_nonneg: "0 \<le> x \<Longrightarrow> 0 \<le> py_int x"
  by (simp add: py_int_def)

lemma take_damage_hp_ok: "hp_ok p \<Longrightarrow> hp_ok (fst (take_damage d p))"
  by (auto simp: hp_ok_def take_damage_def Let_def)

lemma heal_hp_ok: "hp_ok p \<Longrightarrow> 0 \<le> amount \<Longrightarrow> hp_ok (fst (heal amount p))"
  by (auto simp: hp_ok_def heal_def Let_def is_fainted_def)

lemma modify_stat_stage_hp:
  "current_hp (fst (modify_stat_stage st d p)) = current_hp p
   \<and> max_hp (fst (modify_stat_stage st d p)) = max_hp p"
  by (simp add: modify_stat_stage_def Let_def split: option.splits)

lemma apply_status_hp:
  "current_hp (fst (apply_status st p)) = current_hp p
   \<and> max_hp (fst (apply_status st p)) = max_hp p"
  by (simp add: apply_status_def)

lemma stat_boost_loop_hp:
  "current_hp (fst (stat_boost_loop items a lg)) = current_hp a
   \<and> max_hp (fst (stat_boost_loop items a lg)) = max_hp a"
proof (induction items arbitrary: a lg)
  case Nil then show ?case by simp
next
  case (Cons it items)
  obtain stat d where it: "it = (stat, d)" by (cases it)
  show ?case using Cons.IH modify_stat_stage_hp [of stat d a]
    by (simp add: it case_prod_beta)
qed

lemma stat_boost_chance_loop_hp:
  "current_hp (fst (stat_boost_chance_loop items a lg)) = current_hp a
   \<and> max_hp (fst (stat_boost_chance_loop items a lg)) = max_hp a"
proof (induction items arbitrary: a lg)
  case Nil then show ?case by simp
next
  case (Cons it items)
  obtain stat d where it: "it = (stat, d)" by (cases it)
  show ?case using Cons.IH modify_stat_stage_hp [of stat d a]
    by (simp add: it case_prod_beta)
qed

lemma stat_drop_loop_hp:
  "current_hp (fst (stat_drop_loop items a lg)) = current_hp a
   \<and> max_hp (fst (stat_drop_loop items a lg)) = max_hp a"
proof (induction items arbitrary: a lg)
  case Nil then show ?case by simp
next
  case (Cons it items)
  obtain stat d where it: "it = (stat, d)" by (cases it)
  show ?case using Cons.IH modify_stat_stage_hp [of stat "- d" a]
    by (simp add: it case_prod_beta)
qed

lemma effect_status_hp:
  "fx_attacker (effect_status e s) = fx_attacker s
   \<and> current_hp (fx_defender (effect_status e s)) = current_hp (fx_defender s)
   \<and> max_hp (fx_defender (effect_status e s)) = max_hp (fx_defender s)"
  using apply_status_hp
  by (simp add: effect_status_def Let_def rand_random_def case_prod_beta split: option.splits)

lemma effect_stat_boost_hp:
  "fx_defender (effect_stat_boost e s) = fx_defender s
   \<and> current_hp (fx_attacker (effect_stat_boost e s)) = current_hp (fx_attacker s)
   \<and> max_hp (fx_attacker (effect_stat_boost e s)) = max_hp (fx_attacker s)"
  using stat_boost_loop_hp
  by (simp add: effect_stat_boost_def case_prod_beta split: option.splits)

lemma effect_stat_drop_hp:
  "fx_attacker (effect_stat_drop e s) = fx_attacker s
   \<and> current_hp (fx_defender (effect_stat_drop e s)) = current_hp (fx_defender s)
   \<and> max_hp (fx_defender (effect_stat_drop e s)) = max_hp (fx_defender s)"
  using stat_drop_loop_hp
  by (simp add: effect_stat_drop_def case_prod_beta split: option.splits)

lemma effect_stat_boost_chance_hp:
  "fx_defender (effect_stat_boost_chance e s) = fx_defender s
   \<and> current_hp (fx_attacker (effect_stat_boost_chance e s)) = current_hp (fx_attacker s)
   \<and> max_hp (fx_attacker (effect_stat_boost_chance e s)) = max_hp (fx_attacker s)"
  using stat_boost_chance_loop_hp
  by (simp add: effect_stat_boost_chance_def Let_def rand_random_def case_prod_beta split: option.splits)

lemma effect_stat_drop_chance_hp:
  "fx_attacker (effect_stat_drop_chance e s) = fx_attacker s
   \<and> current_hp (fx_defender (effect_stat_drop_chance e s)) = current_hp (fx_defender s)
   \<and> max_hp (fx_defender (effect_stat_drop_chance e s)) = max_hp (fx_defender s)"
  using stat_drop_loop_hp
  by (simp add: effect_stat_drop_chance_def Let_def rand_random_def case_prod_beta split: option.splits)

lemma effect_heal_hp:
  "fx_defender (effect_heal e s) = fx_defender s
   \<and> max_hp (fx_attacker (effect_heal e s)) = max_hp (fx_attacker s)
   \<and> current_hp (fx_attacker (effect_heal e s))
       = (case e_heal e of
            None \<Rightarrow> current_hp (fx_attacker s)
          | Some heal_percent \<Rightarrow>
              if current_hp (fx_attacker s) \<le> 0 then current_hp (fx_attacker s)
              else min (max_hp (fx_attacker s))
                     (current_hp (fx_attacker s)
                        + py_int (of_int (max_hp (fx_attacker s)) * heal_percent)))"
  by (simp add: effect_heal_def Let_def heal_def is_fainted_def case_prod_beta split: option.splits)

lemma effect_drain_hp:
  "fx_defender (effect_drain mv e s) = fx_defender s
   \<and> max_hp (fx_attacker (effect_drain mv e s)) = max_hp (fx_attacker s)
   \<and> current_hp (fx_attacker (effect_drain mv e s))
       = (case e_drain e of
            None \<Rightarrow> current_hp (fx_attacker s)
          | Some drain_percent \<Rightarrow>
              if current_hp (fx_defender s) \<le> 0 \<or> current_hp (fx_attacker s) \<le> 0
              then current_hp (fx_attacker s)
              else min (max_hp (fx_attacker s))
                     (current_hp (fx_attacker s)
                        + py_int (of_int (min (max_hp (fx_defender s) - current_hp (fx_defender s))
                                              (move_power mv)) * drain_percent)))"
  by (simp add: effect_drain_def Let_def heal_def is_fainted_def case_prod_beta split: option.splits)

lemma effect_recoil_hp:
  "fx_defender (effect_recoil mv e nm s) = fx_defender s
   \<and> max_hp (fx_attacker (effect_recoil mv e nm s)) = max_hp (fx_attacker s)
   \<and> current_hp (fx_attacker (effect_recoil mv e nm s))
       = (case e_recoil e of
            None \<Rightarrow> current_hp (fx_attacker s)
          | Some recoil_percent \<Rightarrow>
              if 0 < py_int (of_int (min (max_hp (fx_defender s) - current_hp (fx_defender s))
                                         (move_power mv)) * recoil_percent)
              then max 0 (current_hp (fx_attacker s)
                     - py_int (of_int (min (max_hp (fx_defender s) - current_hp (fx_defender s))
                                           (move_power mv)) * recoil_percent))
              else current_hp (fx_attacker s))"
  by (simp add: effect_recoil_def Let_def take_damage_def is_fainted_def case_prod_beta max_def split: option.splits)

lemma apply_move_effects_defender_hp:
  "current_hp (fx_defender (apply_move_effects mv nm s)) = current_hp (fx_defender s)
   \<and> max_hp (fx_defender (apply_move_effects mv nm s)) = max_hp (fx_defender s)"
  by (simp add: apply_move_effects_def Let_def effect_recoil_hp effect_drain_hp effect_heal_hp
        effect_stat_drop_chance_hp effect_stat_boost_chance_hp effect_stat_drop_hp
        effect_stat_boost_hp effect_status_hp)

lemma apply_move_effects_attacker_max_hp:
  "max_hp (fx_attacker (apply_move_effects mv nm s)) = max_hp (fx_attacker s)"
  by (simp add: apply_move_effects_def Let_def effect_recoil_hp effect_drain_hp effect_heal_hp
        effect_stat_drop_chance_hp effect_stat_boost_chance_hp effect_stat_drop_hp
        effect_stat_boost_hp effect_status_hp)

lemma apply_move_effects_attacker_hp:
  "current_hp (fx_attacker (apply_move_effects mv nm s)) =
    (let e = move_effect mv;
         a = fx_attacker s;
         d = fx_defender s;
         base = min (max_hp d - current_hp d) (move_power mv);
         h1 = (case e_heal e of
                 None \<Rightarrow> current_hp a
               | Some heal_percent \<Rightarrow>
                   if current_hp a \<le> 0 then current_hp a
                   else min (max_hp a) (current_hp a + py_int (of_int (max_hp a) * heal_percent)));
         h2 = (case e_drain e of
                 None \<Rightarrow> h1
               | Some drain_percent \<Rightarrow>
                   if current_hp d \<le> 0 \<or> h1 \<le> 0 then h1
                   else min (max_hp a) (h1 + py_int (of_int base * drain_percent)))
     in (case e_recoil e of
           None \<Rightarrow> h2
         | Some recoil_percent \<Rightarrow>
             if 0 < py_int (of_int base * recoil_percent)
             then max 0 (h2 - py_int (of_int base * recoil_percent))
             else h2))"
proof -
  let ?e = "move_effect mv"
  let ?s5 = "effect_stat_drop_chance ?e (effect_stat_boost_chance ?e (effect_stat_drop ?e
               (effect_stat_boost ?e (effect_status ?e s))))"
  let ?s6 = "effect_heal ?e ?s5"
  let ?s7 = "effect_drain mv ?e ?s6"
  have eq: "apply_move_effects mv nm s = effect_recoil mv ?e nm ?s7"
    by (simp add: apply_move_effects_def Let_def)
  have a5: "current_hp (fx_attacker ?s5) = current_hp (fx_attacker s)"
           "max_hp (fx_attacker ?s5) = max_hp (fx_attacker s)"
    by (simp_all add: effect_stat_drop_chance_hp effect_stat_boost_chance_hp
          effect_stat_drop_hp effect_stat_boost_hp effect_status_hp)
  have d5: "current_hp (fx_defender ?s5) = current_hp (fx_defender s)"
           "max_hp (fx_defender ?s5) = max_hp (fx_defender s)"
    by (simp_all add: effect_stat_drop_chance_hp effect_stat_boost_chance_hp
          effect_stat_drop_hp effect_stat_boost_hp effect_status_hp)
  note h6 = effect_heal_hp [of ?e ?s5, unfolded a5]
  have d6: "current_hp (fx_defender ?s6) = current_hp (fx_defender s)"
           "max_hp (fx_defender ?s6) = max_hp (fx_defender s)"
    using h6 d5 by simp_all
  note h7 = effect_drain_hp [of mv ?e ?s6, unfolded d6]
  have d7: "current_hp (fx_defender ?s7) = current_hp (fx_defender s)"
           "max_hp (fx_defender ?s7) = max_hp (fx_defender s)"
    using h7 d6 by simp_all
  note h8 = effect_recoil_hp [of mv ?e nm ?s7, unfolded d7]
  have m6: "max_hp (fx_attacker ?s6) = max_hp (fx_attacker s)" using h6 by simp
  show ?thesis
    unfolding eq Let_def
    by (simp only: h8 [THEN conjunct2, THEN conjunct2] h7 [THEN conjunct2, THEN conjunct2]
          h6 [THEN conjunct2, THEN conjunct2] m6 cong: option.case_cong if_cong)
qed

lemma effect_recoil_faint_log:
  assumes "e_recoil e = Some recoil_percent"
    and "0 < py_int (of_int (min (max_hp (fx_defender s) - current_hp (fx_defender s))
                                 (move_power mv)) * recoil_percent)"
    and "is_fainted (fx_attacker (effect_recoil mv e nm s))"
  shows "last (fx_log (effect_recoil mv e nm s))
           = nm @ apos_s @ nickname (fx_attacker (effect_recoil mv e nm s))
               @ '' fainted due to recoil!''"
  using assms by (simp add: effect_recoil_def Let_def case_prod_beta split: if_splits)


lemma apply_move_effects_recoil_log:
  assumes r: "e_recoil (move_effect mv) = Some recoil_percent"
    and pos: "0 < py_int (of_int (min (max_hp (fx_defender s) - current_hp (fx_defender s))
                                 (move_power mv)) * recoil_percent)"
    and f: "is_fainted (fx_attacker (apply_move_effects mv nm s))"
  shows "last (fx_log (apply_move_effects mv nm s))
           = nm @ apos_s @ nickname (fx_attacker (apply_move_effects mv nm s))
               @ '' fainted due to recoil!''"
proof -
  let ?e = "move_effect mv"
  let ?s7 = "effect_drain mv ?e (effect_heal ?e (effect_stat_drop_chance ?e
              (effect_stat_boost_chance ?e (effect_stat_drop ?e (effect_stat_boost ?e
                (effect_status ?e s))))))"
  have eq: "apply_move_effects mv nm s = effect_recoil mv ?e nm ?s7"
    by (simp add: apply_move_effects_def Let_def)
  have d: "current_hp (fx_defender ?s7) = current_hp (fx_defender s)"
          "max_hp (fx_defender ?s7) = max_hp (fx_defender s)"
    by (simp_all add: effect_drain_hp effect_heal_hp effect_stat_drop_chance_hp
          effect_stat_boost_chance_hp effect_stat_drop_hp effect_stat_boost_hp effect_status_hp)
  show ?thesis
    unfolding eq
    by (rule effect_recoil_faint_log [OF r]) (use pos f in \<open>simp_all add: d eq [symmetric]\<close>)
qed

lemma move_dispatch_damaging:
  assumes "move_category mv \<in> {''Physical'', ''Special''}"
    and "calculate_damage chart attacker defender mv (battle_log b) g = Inr (damage, lg, g1)"
  shows "\<exists>lg'. move_dispatch chart sd mv attacker defender b g
           = Inr (write_back sd
                   (apply_move_effects mv (pname (get_player sd b))
                      \<lparr>fx_attacker = attacker, fx_defender = fst (take_damage damage defender),
                       fx_log = lg', fx_rng = g1\<rparr>) b)"
  using assms by (auto simp: move_dispatch_def Let_def case_prod_beta)

section \<open>Drain and recoil\<close>

text \<open>
  C8 (as amended). The effects of a move leave the defender's HP as the damage left it. The attacker's
  HP after the effects is its HP after the heal effect, raised by the drain fraction of
  \<open>min (defender's missing HP) (move power)\<close> (truncated, capped at the maximum; skipped when
  the defender has fainted), then lowered by the recoil fraction of the same quantity when
  that is positive. Neither amount depends on the damage dealt. When recoil leaves the
  attacker fainted, the last log line says that it fainted due to recoil. For a physical or
  special move the effects run on the defender as \<^verbatim>\<open>take_damage\<close> has left it.
\<close>

theorem drain_recoil_from_missing_hp:
  "current_hp (fx_defender (apply_move_effects mv nm s)) = current_hp (fx_defender s)
   \<and> current_hp (fx_attacker (apply_move_effects mv nm s)) =
       (let e = move_effect mv;
            a = fx_attacker s;
            d = fx_defender s;
            base = min (max_hp d - current_hp d) (move_power mv);
            h1 = (case e_heal e of
                    None \<Rightarrow> current_hp a
                  | Some heal_percent \<Rightarrow>
                      if current_hp a \<le> 0 then current_hp a
                      else min (max_hp a) (current_hp a + py_int (of_int (max_hp a) * heal_percent)));
            h2 = (case e_drain e of
                    None \<Rightarrow> h1
                  | Some drain_percent \<Rightarrow>
                      if current_hp d \<le> 0 \<or> h1 \<le> 0 then h1
                      else min (max_hp a) (h1 + py_int (of_int base * drain_percent)))
        in (case e_recoil e of
              None \<Rightarrow> h2
            | Some recoil_percent \<Rightarrow>
                if 0 < py_int (of_int base * recoil_percent)
                then max 0 (h2 - py_int (of_int base * recoil_percent))
                else h2))
   \<and> (\<forall>recoil_percent.
         e_recoil (move_effect mv) = Some recoil_percent
         \<and> 0 < py_int (of_int (min (max_hp (fx_defender s) - current_hp (fx_defender s))
                                   (move_power mv)) * recoil_percent)
         \<and> is_fainted (fx_attacker (apply_move_effects mv nm s))
         \<longrightarrow> last (fx_log (apply_move_effects mv nm s))
               = nm @ apos_s @ nickname (fx_attacker (apply_move_effects mv nm s))
                   @ '' fainted due to recoil!'')
   \<and> (\<forall>damage lg g1.
         move_category mv \<in> {''Physical'', ''Special''}
         \<and> calculate_damage chart attacker defender mv (battle_log b) g = Inr (damage, lg, g1)
         \<longrightarrow> (\<exists>lg'. move_dispatch chart sd mv attacker defender b g
                = Inr (write_back sd
                        (apply_move_effects mv (pname (get_player sd b))
                           \<lparr>fx_attacker = attacker, fx_defender = fst (take_damage damage defender),
                            fx_log = lg', fx_rng = g1\<rparr>) b)))"
proof (intro conjI allI impI)
  show "current_hp (fx_defender (apply_move_effects mv nm s)) = current_hp (fx_defender s)"
    by (simp add: apply_move_effects_defender_hp)
next
  show "current_hp (fx_attacker (apply_move_effects mv nm s)) =
       (let e = move_effect mv;
            a = fx_attacker s;
            d = fx_defender s;
            base = min (max_hp d - current_hp d) (move_power mv);
            h1 = (case e_heal e of
                    None \<Rightarrow> current_hp a
                  | Some heal_percent \<Rightarrow>
                      if current_hp a \<le> 0 then current_hp a
                      else min (max_hp a) (current_hp a + py_int (of_int (max_hp a) * heal_percent)));
            h2 = (case e_drain e of
                    None \<Rightarrow> h1
                  | Some drain_percent \<Rightarrow>
                      if current_hp d \<le> 0 \<or> h1 \<le> 0 then h1
                      else min (max_hp a) (h1 + py_int (of_int base * drain_percent)))
        in (case e_recoil e of
              None \<Rightarrow> h2
            | Some recoil_percent \<Rightarrow>
                if 0 < py_int (of_int base * recoil_percent)
                then max 0 (h2 - py_int (of_int base * recoil_percent))
                else h2))"
    by (rule apply_move_effects_attacker_hp)
next
  fix recoil_percent
  assume "e_recoil (move_effect mv) = Some recoil_percent
         \<and> 0 < py_int (of_int (min (max_hp (fx_defender s) - current_hp (fx_defender s))
                                   (move_power mv)) * recoil_percent)
         \<and> is_fainted (fx_attacker (apply_move_effects mv nm s))"
  then show "last (fx_log (apply_move_effects mv nm s))
               = nm @ apos_s @ nickname (fx_attacker (apply_move_effects mv nm s))
                   @ '' fainted due to recoil!''"
    using apply_move_effects_recoil_log by blast
next
  fix damage lg g1
  assume "move_category mv \<in> {''Physical'', ''Special''}
         \<and> calculate_damage chart attacker defender mv (battle_log b) g = Inr (damage, lg, g1)"
  then show "\<exists>lg'. move_dispatch chart sd mv attacker defender b g
                = Inr (write_back sd
                        (apply_move_effects mv (pname (get_player sd b))
                           \<lparr>fx_attacker = attacker, fx_defender = fst (take_damage damage defender),
                            fx_log = lg', fx_rng = g1\<rparr>) b)"
    using move_dispatch_damaging by blast
qed

theorem drain_recoil_from_missing_hp_witness:
  "current_hp (fx_attacker (apply_move_effects giga_drain ''Red'' ex_fx_drain)) = 133
   \<and> current_hp (fx_attacker (apply_move_effects giga_drain ''Red'' ex_fx_drain_ko)) = 100
   \<and> current_hp (fx_attacker (apply_move_effects double_edge ''Red'' ex_fx_recoil)) = 0
   \<and> last (fx_log (apply_move_effects double_edge ''Red'' ex_fx_recoil))
       = ''Red'' @ apos_s @ ''Snorlax fainted due to recoil!''
   \<and> map_sum id (\<lambda>(b, g). (battle_log b, map current_hp (team (player1 b)),
                              map current_hp (team (player2 b))))
        (execute_move ex_moves ex_chart P1 ''Giga Drain'' ex_battle_drain rng_half)
       = Inr ([''Red'' @ apos_s @ ''Blastoise used Giga Drain!'', ''It's super effective!'',
               ''Blastoise took 56 damage!'', ''Blastoise restored 33 HP!''],
              [200, 133], [120, 84])"
proof -
  note th1 = drain_recoil_from_missing_hp [of giga_drain "''Red''" ex_fx_drain]
  note th2 = drain_recoil_from_missing_hp [of double_edge "''Red''" ex_fx_recoil]
  have e1: "move_effect giga_drain = empty_effect\<lparr>e_drain := Some (1 / 2)\<rparr>"
    "move_power giga_drain = 75"
    by (simp_all add: move_effect_def move_power_def giga_drain_def)
  have e2: "move_effect double_edge = empty_effect\<lparr>e_recoil := Some (1 / 3)\<rparr>"
    "move_power double_edge = 120"
    by (simp_all add: move_effect_def move_power_def double_edge_def)
  have hp1: "current_hp (fx_attacker (apply_move_effects giga_drain ''Red'' ex_fx_drain)) = 133"
    using th1 by (simp add: e1 Let_def empty_effect_def ex_fx_drain_def blastoise_def py_int_def)
  note th3 = drain_recoil_from_missing_hp [of giga_drain "''Red''" ex_fx_drain_ko]
  have hp3: "current_hp (fx_attacker (apply_move_effects giga_drain ''Red'' ex_fx_drain_ko)) = 100"
    using th3 by (simp add: e1 Let_def empty_effect_def ex_fx_drain_ko_def blastoise_def py_int_def)
  have hp2: "current_hp (fx_attacker (apply_move_effects double_edge ''Red'' ex_fx_recoil)) = 0"
    using th2
    by (simp add: e2 Let_def empty_effect_def ex_fx_recoil_def blastoise_def snorlax_def py_int_def)
  have pos: "0 < py_int (of_int (min (max_hp (fx_defender ex_fx_recoil)
                                        - current_hp (fx_defender ex_fx_recoil))
                                    (move_power double_edge)) * (1 / 3))"
    by (simp add: e2 ex_fx_recoil_def blastoise_def py_int_def)
  have r: "e_recoil (move_effect double_edge) = Some (1 / 3)"
    by (simp add: e2 empty_effect_def)
  have f: "is_fainted (fx_attacker (apply_move_effects double_edge ''Red'' ex_fx_recoil))"
    using hp2 by (simp add: is_fainted_def)
  have nn: "nickname (fx_attacker (apply_move_effects double_edge ''Red'' ex_fx_recoil)) = ''Snorlax''"
    by code_simp
  have lg: "last (fx_log (apply_move_effects double_edge ''Red'' ex_fx_recoil))
       = ''Red'' @ apos_s @ ''Snorlax fainted due to recoil!''"
  proof -
    have "last (fx_log (apply_move_effects double_edge ''Red'' ex_fx_recoil))
       = ''Red'' @ apos_s
           @ nickname (fx_attacker (apply_move_effects double_edge ''Red'' ex_fx_recoil))
           @ '' fainted due to recoil!''"
      using th2 r pos f by blast
    then show ?thesis by (simp add: nn)
  qed
  have ex: "map_sum id (\<lambda>(b, g). (battle_log b, map current_hp (team (player1 b)),
                              map current_hp (team (player2 b))))
        (execute_move ex_moves ex_chart P1 ''Giga Drain'' ex_battle_drain rng_half)
       = Inr ([''Red'' @ apos_s @ ''Blastoise used Giga Drain!'', ''It's super effective!'',
               ''Blastoise took 56 damage!'', ''Blastoise restored 33 HP!''],
              [200, 133], [120, 84])"
    by code_simp
  show ?thesis using hp1 hp2 hp3 lg ex by blast
qed

text \<open>
  C8 as stated, with the drain computed for every move that carries a drain effect, fails
  when the move knocks the defender out. Giga Drain (drain fraction \<open>1/2\<close>, power 75) on a
  Blastoise at 40 of 150 HP deals 56 damage; the defender faints, the fraction of
  \<open>min (missing HP) (power)\<close> would be 37 and the attacker, at 100 of 150 HP, could take it
  all, but the attacker stays at 100 HP and no line about restored HP is logged.
\<close>

theorem drain_skipped_on_knockout:
  "e_drain (move_effect giga_drain) = Some (1 / 2)
   \<and> py_int (of_int (min (max_hp (fx_defender ex_fx_drain_ko)
                              - current_hp (fx_defender ex_fx_drain_ko))
                          (move_power giga_drain)) * (1 / 2)) = 37
   \<and> current_hp (fx_attacker ex_fx_drain_ko) = 100
   \<and> max_hp (fx_attacker ex_fx_drain_ko) = 150
   \<and> current_hp (fx_attacker (apply_move_effects giga_drain ''Red'' ex_fx_drain_ko)) = 100
   \<and> fx_log (apply_move_effects giga_drain ''Red'' ex_fx_drain_ko) = []
   \<and> map_sum id (\<lambda>(b, g). (battle_log b, map current_hp (team (player1 b)),
                              map current_hp (team (player2 b))))
        (execute_move ex_moves ex_chart P1 ''Giga Drain'' ex_battle_drain_ko rng_half)
       = Inr ([''Red'' @ apos_s @ ''Blastoise used Giga Drain!'', ''It's super effective!'',
               ''Blastoise took 56 damage!'', ''Blue'' @ apos_s @ ''Blastoise fainted!''],
              [200, 100], [120, 0])"
  by code_simp

section \<open>The HP bound\<close>

lemma team_ok_update: "team_ok tm \<Longrightarrow> hp_ok pk \<Longrightarrow> team_ok (tm[i := pk])"
  unfolding team_ok_def list_all_iff
  using set_update_subset_insert [of tm i pk] by auto

lemma team_ok_nth: "team_ok tm \<Longrightarrow> i < length tm \<Longrightarrow> hp_ok (tm ! i)"
  by (simp add: team_ok_def list_all_length)

lemma set_active_ok: "team_ok (team pl) \<Longrightarrow> hp_ok pk \<Longrightarrow> team_ok (team (set_active pk pl))"
  by (simp add: set_active_def team_ok_update)

lemma active_pokemon_ok: "team_ok (team pl) \<Longrightarrow> active_pokemon pl = Some pk \<Longrightarrow> hp_ok pk"
  by (auto simp: active_pokemon_def team_ok_nth split: if_splits)

lemma get_player_ok: "battle_ok b \<Longrightarrow> team_ok (team (get_player sd b))"
  by (cases sd) (simp_all add: battle_ok_def)

lemma set_player_ok: "battle_ok b \<Longrightarrow> team_ok (team pl) \<Longrightarrow> battle_ok (set_player sd pl b)"
  by (cases sd) (simp_all add: battle_ok_def)

lemma battle_ok_log [simp]: "battle_ok (b\<lparr>battle_log := lg\<rparr>) = battle_ok b"
  by (simp add: battle_ok_def)

lemma battle_ok_append_log [simp]: "battle_ok (append_log line b) = battle_ok b"
  by (simp add: append_log_def)

lemma get_set_player_other: "get_player (other_side sd) (set_player sd pl b) = get_player (other_side sd) b"
  by (cases sd) simp_all

lemma write_back_ok:
  assumes "battle_ok b" "hp_ok (fx_attacker s)" "hp_ok (fx_defender s)"
  shows "battle_ok (fst (write_back sd s b))"
proof -
  let ?b1 = "set_player sd (set_active (fx_attacker s) (get_player sd b)) b"
  have b1: "battle_ok ?b1"
    by (rule set_player_ok [OF assms(1) set_active_ok [OF get_player_ok [OF assms(1)] assms(2)]])
  have "battle_ok (set_player (other_side sd)
          (set_active (fx_defender s) (get_player (other_side sd) ?b1)) ?b1)"
    by (rule set_player_ok [OF b1 set_active_ok [OF get_player_ok [OF b1] assms(3)]])
  then show ?thesis by (simp add: write_back_def Let_def)
qed

lemma effect_heal_ok:
  assumes "hp_ok (fx_attacker s)" "case e_heal e of None \<Rightarrow> True | Some h \<Rightarrow> 0 \<le> h"
  shows "hp_ok (fx_attacker (effect_heal e s))"
proof (cases "e_heal e")
  case None then show ?thesis using assms by (simp add: effect_heal_def)
next
  case (Some h)
  with assms have "0 \<le> of_int (max_hp (fx_attacker s)) * h" by (simp add: hp_ok_def)
  then have "0 \<le> py_int (of_int (max_hp (fx_attacker s)) * h)" by (rule py_int_nonneg)
  from heal_hp_ok [OF assms(1) this] show ?thesis
    using Some by (simp add: effect_heal_def Let_def case_prod_beta)
qed

lemma effect_drain_ok:
  assumes "hp_ok (fx_attacker s)" "hp_ok (fx_defender s)" "0 \<le> move_power mv"
    "case e_drain e of None \<Rightarrow> True | Some d \<Rightarrow> 0 \<le> d"
  shows "hp_ok (fx_attacker (effect_drain mv e s))"
proof (cases "e_drain e")
  case None then show ?thesis using assms by (simp add: effect_drain_def)
next
  case (Some d)
  let ?base = "min (max_hp (fx_defender s) - current_hp (fx_defender s)) (move_power mv)"
  from assms have "0 \<le> ?base" by (simp add: hp_ok_def)
  with assms Some have "0 \<le> of_int ?base * d" by simp
  then have "0 \<le> py_int (of_int ?base * d)" by (rule py_int_nonneg)
  from heal_hp_ok [OF assms(1) this] show ?thesis
    using Some assms(1) by (simp add: effect_drain_def Let_def case_prod_beta)
qed

lemma effect_recoil_ok:
  assumes "hp_ok (fx_attacker s)"
  shows "hp_ok (fx_attacker (effect_recoil mv e nm s))"
  using assms take_damage_hp_ok [OF assms]
  by (simp add: effect_recoil_def Let_def case_prod_beta split: option.splits)

lemma apply_move_effects_ok:
  assumes a: "hp_ok (fx_attacker s)" and d: "hp_ok (fx_defender s)" and wf: "move_wf mv"
  shows "hp_ok (fx_attacker (apply_move_effects mv nm s))
       \<and> hp_ok (fx_defender (apply_move_effects mv nm s))"
proof -
  let ?e = "move_effect mv"
  let ?s5 = "effect_stat_drop_chance ?e (effect_stat_boost_chance ?e (effect_stat_drop ?e
               (effect_stat_boost ?e (effect_status ?e s))))"
  let ?s6 = "effect_heal ?e ?s5"
  let ?s7 = "effect_drain mv ?e ?s6"
  have eq: "apply_move_effects mv nm s = effect_recoil mv ?e nm ?s7"
    by (simp add: apply_move_effects_def Let_def)
  have a5: "hp_ok (fx_attacker ?s5)"
    using a by (simp add: hp_ok_def effect_stat_drop_chance_hp effect_stat_boost_chance_hp
                  effect_stat_drop_hp effect_stat_boost_hp effect_status_hp)
  have d5: "hp_ok (fx_defender ?s5)"
    using d by (simp add: hp_ok_def effect_stat_drop_chance_hp effect_stat_boost_chance_hp
                  effect_stat_drop_hp effect_stat_boost_hp effect_status_hp)
  have a6: "hp_ok (fx_attacker ?s6)" using a5 wf by (intro effect_heal_ok) (simp_all add: move_wf_def)
  have d6: "hp_ok (fx_defender ?s6)" using d5 by (simp add: effect_heal_hp)
  have a7: "hp_ok (fx_attacker ?s7)"
    using a6 d6 wf by (intro effect_drain_ok) (simp_all add: move_wf_def)
  have d7: "hp_ok (fx_defender ?s7)" using d6 by (simp add: effect_drain_hp)
  show ?thesis unfolding eq using a7 d7 by (simp add: effect_recoil_ok effect_recoil_hp)
qed

lemma move_dispatch_ok:
  assumes b: "battle_ok b" and a: "hp_ok attacker" and d: "hp_ok defender" and wf: "move_wf mv"
    and r: "move_dispatch chart sd mv attacker defender b g = Inr (b', g')"
  shows "battle_ok b'"
proof (cases "move_category mv \<in> {''Physical'', ''Special''}")
  case True
  from r True obtain damage lg g1
    where cd: "calculate_damage chart attacker defender mv (battle_log b) g = Inr (damage, lg, g1)"
    by (auto simp: move_dispatch_def Let_def split: sum.splits)
  from move_dispatch_damaging [OF True cd, of sd] obtain lg' where
    eq: "move_dispatch chart sd mv attacker defender b g
           = Inr (write_back sd
                   (apply_move_effects mv (pname (get_player sd b))
                      \<lparr>fx_attacker = attacker, fx_defender = fst (take_damage damage defender),
                       fx_log = lg', fx_rng = g1\<rparr>) b)"
    by blast
  let ?s = "apply_move_effects mv (pname (get_player sd b))
                      \<lparr>fx_attacker = attacker, fx_defender = fst (take_damage damage defender),
                       fx_log = lg', fx_rng = g1\<rparr>"
  have "hp_ok (fx_attacker ?s) \<and> hp_ok (fx_defender ?s)"
    by (rule apply_move_effects_ok) (simp_all add: a wf take_damage_hp_ok [OF d])
  then have "battle_ok (fst (write_back sd ?s b))" using b by (simp add: write_back_ok)
  with eq r show ?thesis by (metis fst_conv sum.inject(2))
next
  case False
  show ?thesis
  proof (cases "move_category mv = ''Status''")
    case True
    let ?s = "apply_move_effects mv (pname (get_player sd b))
                \<lparr>fx_attacker = attacker, fx_defender = defender,
                 fx_log = battle_log b, fx_rng = g\<rparr>"
    have "hp_ok (fx_attacker ?s) \<and> hp_ok (fx_defender ?s)"
      by (rule apply_move_effects_ok) (simp_all add: a d wf)
    then have "battle_ok (fst (write_back sd ?s b))" using b by (simp add: write_back_ok)
    moreover from r False True have "write_back sd ?s b = (b', g')"
      by (simp add: move_dispatch_def Let_def)
    ultimately show ?thesis by simp
  next
    case F2: False
    with False r have "b' = b" by (simp add: move_dispatch_def Let_def)
    with b show ?thesis by simp
  qed
qed

lemma accuracy_check_ok:
  assumes b: "battle_ok b" and a: "hp_ok attacker" and d: "hp_ok defender" and wf: "move_wf mv"
    and r: "accuracy_check chart sd mv attacker defender b g = Inr (b', g')"
  shows "battle_ok b'"
  using r move_dispatch_ok [OF b a d wf] b
  by (auto simp: accuracy_check_def Let_def case_prod_beta split: if_splits)

lemma move_wf_empty: "move_wf empty_move"
  by (simp add: move_wf_def empty_move_def move_power_def move_effect_def empty_effect_def)

lemma get_move_wf: "move_data_wf md \<Longrightarrow> move_wf (get_move md n)"
  by (auto simp: move_data_wf_def get_move_def move_wf_empty split: option.splits)

lemma execute_move_ok:
  assumes wf: "move_data_wf md" and b: "battle_ok b"
    and r: "execute_move md chart sd n b g = Inr (b', g')"
  shows "battle_ok b'"
proof (cases "active_pokemon (get_player sd b)")
  case None
  with r b show ?thesis by (simp add: execute_move_def)
next
  case (Some attacker)
  note att = Some
  have a: "hp_ok attacker" using active_pokemon_ok [OF get_player_ok [OF b] att] .
  show ?thesis
  proof (cases "active_pokemon (get_player (other_side sd) b)")
    case None
    with r b att show ?thesis by (simp add: execute_move_def split: if_splits)
  next
    case (Some defender)
    have d: "hp_ok defender" using active_pokemon_ok [OF get_player_ok [OF b] Some] .
    have mwf: "move_wf (get_move md n)" using wf by (rule get_move_wf)
    have acc: "\<And>b0 g0.
        accuracy_check chart sd (get_move md n) attacker defender (append_log b0 b) g0 = Inr (b', g')
        \<Longrightarrow> battle_ok b'"
    proof -
      fix b0 g0
      assume e: "accuracy_check chart sd (get_move md n) attacker defender (append_log b0 b) g0
                   = Inr (b', g')"
      have "battle_ok (append_log b0 b)" using b by simp
      from accuracy_check_ok [OF this a d mwf e] show "battle_ok b'" .
    qed
    from r att Some b show ?thesis
      by (auto simp: execute_move_def Let_def case_prod_beta split: if_splits dest: acc)
  qed
qed

lemma use_potion_ok: "team_ok (team pl) \<Longrightarrow> team_ok (team (fst (use_potion i pl)))"
proof (cases "snd (use_potion i pl)")
  case False
  assume "team_ok (team pl)"
  then show ?thesis using use_potion_fail [OF False] by simp
next
  case True
  assume t: "team_ok (team pl)"
  from True have c: "0 \<le> i" "i < int (length (team pl))"
    "current_hp (team pl ! nat i) < max_hp (team pl ! nat i)"
    "\<not> is_fainted (team pl ! nat i)"
    by (simp_all add: use_potion_ok_iff)
  then have "hp_ok (team pl ! nat i)" using t by (intro team_ok_nth) simp_all
  with c have "hp_ok ((team pl ! nat i)
      \<lparr>current_hp := min (max_hp (team pl ! nat i)) (current_hp (team pl ! nat i) + 20)\<rparr>)"
    by (simp add: hp_ok_def)
  then show ?thesis using t by (simp add: use_potion_success [OF True] team_ok_update)
qed

lemma switch_pokemon_team: "team (fst (switch_pokemon i pl)) = team pl"
  by (simp add: switch_pokemon_def)

lemma execute_switch_ok:
  assumes "battle_ok b" "execute_switch sd i b = Inr b'"
  shows "battle_ok b'"
proof -
  have "battle_ok (set_player sd (fst (switch_pokemon i (get_player sd b))) b)"
    using assms(1) by (intro set_player_ok) (simp_all add: switch_pokemon_team get_player_ok)
  with assms(2) show ?thesis
    by (auto simp: execute_switch_def Let_def case_prod_beta split: if_splits option.splits)
qed

lemma execute_item_ok:
  assumes "battle_ok b"
  shows "battle_ok (execute_item sd item i b)"
proof -
  have "battle_ok (set_player sd (fst (use_potion i (get_player sd b))) b)"
    using assms by (intro set_player_ok use_potion_ok get_player_ok)
  with assms show ?thesis
    by (simp add: execute_item_def Let_def case_prod_beta)
qed

lemma execute_action_ok:
  assumes wf: "move_data_wf md" and b: "battle_ok b"
    and r: "execute_action md chart sd a b g = Inr (b', g')"
  shows "battle_ok b'"
  using r b execute_move_ok [OF wf b] execute_switch_ok [OF b] execute_item_ok [OF b]
  by (auto simp: execute_action_def Let_def split: if_splits sum.splits)

lemma apply_status_damage_ok: "hp_ok pk \<Longrightarrow> hp_ok (fst (apply_status_damage pk nm lg))"
  using take_damage_hp_ok [of pk]
  by (simp add: apply_status_damage_def Let_def case_prod_beta)

lemma end_of_turn_side_ok: "battle_ok b \<Longrightarrow> battle_ok (end_of_turn_side sd b)"
proof (cases "active_pokemon (get_player sd b)")
  case None
  assume "battle_ok b" with None show ?thesis by (simp add: end_of_turn_side_def)
next
  case (Some pk)
  assume b: "battle_ok b"
  have "hp_ok pk" using active_pokemon_ok [OF get_player_ok [OF b] Some] .
  then have "hp_ok (fst (apply_status_damage pk (pname (get_player sd b)) (battle_log b)))"
    by (rule apply_status_damage_ok)
  then have "battle_ok (set_player sd
      (set_active (fst (apply_status_damage pk (pname (get_player sd b)) (battle_log b)))
         (get_player sd b)) b)"
    using b by (intro set_player_ok set_active_ok get_player_ok)
  with b Some show ?thesis by (simp add: end_of_turn_side_def Let_def case_prod_beta)
qed

lemma apply_end_of_turn_effects_ok: "battle_ok b \<Longrightarrow> battle_ok (apply_end_of_turn_effects b)"
  by (simp add: apply_end_of_turn_effects_def end_of_turn_side_ok)

lemma check_battle_end_ok [simp]: "battle_ok (check_battle_end b) = battle_ok b"
  by (simp add: check_battle_end_def Let_def battle_ok_def append_log_def)

lemma run_actions_ok:
  assumes wf: "move_data_wf md"
  shows "battle_ok b \<Longrightarrow> run_actions md chart acts b g = Inr (b', g') \<Longrightarrow> battle_ok b'"
proof (induction acts arbitrary: b g)
  case Nil then show ?case by simp
next
  case (Cons x acts)
  obtain sd a where x: "x = (sd, a)" by (cases x)
  show ?case
  proof (cases "is_battle_over b")
    case True
    with Cons.prems show ?thesis by (simp add: x)
  next
    case False
    with Cons.prems(2) obtain b1 g1 where
      e: "execute_action md chart sd a b g = Inr (b1, g1)"
      and rest: "run_actions md chart acts (check_battle_end b1) g1 = Inr (b', g')"
      by (auto simp: x split: sum.splits)
    have "battle_ok b1" using execute_action_ok [OF wf Cons.prems(1) e] .
    then have "battle_ok (check_battle_end b1)" by simp
    from Cons.IH [OF this rest] show ?thesis .
  qed
qed

lemma execute_turn_ok:
  assumes wf: "move_data_wf md" and b: "battle_ok b"
    and r: "execute_turn md chart a1 a2 b g = Inr (b', g')"
  shows "battle_ok b'"
proof -
  let ?b0 = "b\<lparr>current_turn := current_turn b + 1, battle_log := []\<rparr>"
  have b0: "battle_ok ?b0" using b by (simp add: battle_ok_def)
  obtain acts g0 where o: "determine_action_order md ?b0 a1 a2 g = (acts, g0)"
    by (cases "determine_action_order md ?b0 a1 a2 g")
  from r o obtain b1 g1 where ra: "run_actions md chart acts ?b0 g0 = Inr (b1, g1)"
    by (auto simp: execute_turn_def Let_def split: sum.splits)
  have b1: "battle_ok b1" using run_actions_ok [OF wf b0 ra] .
  from r o ra have "b' = (if \<not> is_battle_over b1
      then check_battle_end (apply_end_of_turn_effects b1) else b1)"
    by (auto simp: execute_turn_def Let_def split: if_splits)
  with b1 show ?thesis by (simp add: apply_end_of_turn_effects_ok)
qed

lemma move_data_wf_ex: "move_data_wf ex_moves"
  by (auto simp: move_data_wf_def ex_moves_def move_wf_def move_power_def move_effect_def
        strength_def giga_drain_def double_edge_def empty_effect_def split: if_splits)

lemma battle_ok_ex: "battle_ok ex_battle_drain"
  by (simp add: battle_ok_def team_ok_def hp_ok_def ex_battle_drain_def ex_battle_def red_def
        blue_def snorlax_def blastoise_def gengar_def)

text \<open>
  C5. \<open>0 \<le> current_hp \<le> max_hp\<close> is preserved: by \<^verbatim>\<open>take_damage\<close> for every amount, by
  \<^verbatim>\<open>heal\<close> for every amount that is not negative, and, in a battle whose Pokemon all
  satisfy the bound, by a potion, by the execution of a move, by the end-of-turn status
  damage and by a whole turn. The move table has no negative power, heal fraction or drain
  fraction, so that the engine never heals by a negative amount.
\<close>

theorem hp_bounds_preserved:
  assumes wf: "move_data_wf md" and b: "battle_ok b"
  shows "(\<forall>p d. hp_ok p \<longrightarrow> hp_ok (fst (take_damage d p)))
       \<and> (\<forall>p amount. hp_ok p \<and> 0 \<le> amount \<longrightarrow> hp_ok (fst (heal amount p)))
       \<and> battle_ok (execute_item sd item i b)
       \<and> (\<forall>b' g'. execute_move md chart sd n b g = Inr (b', g') \<longrightarrow> battle_ok b')
       \<and> battle_ok (apply_end_of_turn_effects b)
       \<and> (\<forall>b' g'. execute_turn md chart a1 a2 b g = Inr (b', g') \<longrightarrow> battle_ok b')"
  using take_damage_hp_ok heal_hp_ok execute_item_ok [OF b] execute_move_ok [OF wf b]
    apply_end_of_turn_effects_ok [OF b] execute_turn_ok [OF wf b]
  by blast

theorem hp_bounds_preserved_witness:
  "move_data_wf ex_moves \<and> battle_ok ex_battle_drain
   \<and> (case execute_turn ex_moves ex_chart (move_action ''Giga Drain'') (move_action ''Strength'')
             ex_battle_drain rng_half of
         Inl err \<Rightarrow> False
       | Inr (b', g') \<Rightarrow>
           battle_ok b' \<and> map current_hp (team (player1 b')) = [200, 99]
           \<and> map current_hp (team (player2 b')) = [120, 84])"
proof -
  have r: "case execute_turn ex_moves ex_chart (move_action ''Giga Drain'')
                  (move_action ''Strength'') ex_battle_drain rng_half of
             Inl err \<Rightarrow> False | Inr x \<Rightarrow> True"
    by code_simp
  then obtain b' g' where e: "execute_turn ex_moves ex_chart (move_action ''Giga Drain'')
                  (move_action ''Strength'') ex_battle_drain rng_half = Inr (b', g')"
    by (auto split: sum.splits)
  have "battle_ok b'"
    using hp_bounds_preserved [OF move_data_wf_ex battle_ok_ex] e by blast
  moreover have "map_sum id (\<lambda>(b, g). (map current_hp (team (player1 b)),
                                       map current_hp (team (player2 b))))
        (execute_turn ex_moves ex_chart (move_action ''Giga Drain'') (move_action ''Strength'')
           ex_battle_drain rng_half) = Inr ([200, 99], [120, 84])"
    by code_simp
  ultimately show ?thesis using e by (simp add: move_data_wf_ex battle_ok_ex)
qed

end
